theory Spec2Isabelle
  imports Main "HOL-Library.Word"
begin

section \<open>Data model of the BAML FFI wrapper (baml\_ffi\_c.c)\<close>

text \<open>
  A C pointer is either the null pointer or an address. The wrapper never does
  arithmetic on a pointer; it only tests it against \<open>NULL\<close>, passes it on, or
  reads and writes a \<open>BamlLibrary\<close> through it.
\<close>

datatype pointer = NULL | Addr nat

text \<open>\<open>BamlCBuffer\<close> of baml\_ffi\_c.h: \<open>const int8_t* ptr; size_t len\<close>.\<close>

record BamlCBuffer =
  ptr :: pointer
  len :: "64 word"

text \<open>
  \<open>struct BamlLibrary\<close>: the OS handle and the nine function pointers, in the
  order of the source.
\<close>

record BamlLibrary =
  handle :: pointer
  create_runtime :: pointer
  destroy_runtime :: pointer
  call_function :: pointer
  call_function_stream :: pointer
  call_object_constructor :: pointer
  call_object_method :: pointer
  free_buffer :: pointer
  version :: pointer
  register_callbacks :: pointer

text \<open>What \<open>calloc(1, sizeof(BamlLibrary))\<close> hands out: every field zero.\<close>

definition zeroed :: BamlLibrary where
  "zeroed = \<lparr>handle = NULL, create_runtime = NULL, destroy_runtime = NULL,
     call_function = NULL, call_function_stream = NULL, call_object_constructor = NULL,
     call_object_method = NULL, free_buffer = NULL, version = NULL,
     register_callbacks = NULL\<rparr>"

text \<open>
  Arguments of a call through a resolved function pointer: pointers (runtime,
  strings, payloads, callbacks), \<open>size_t\<close> lengths and the \<open>uint32_t\<close> call id.
\<close>

datatype arg = Pointer_arg pointer | Size_arg "64 word" | Uint32_arg "32 word"

text \<open>
  Everything the wrapper does to the outside is recorded, in order: the calls of
  \<open>dlopen\<close>, \<open>dlsym\<close>, \<open>dlclose\<close>, \<open>calloc\<close> (with its result), \<open>free\<close>, and the
  calls through a function pointer of the loaded library (\<open>Invoke f args\<close>).
\<close>

datatype event =
    Dlopen string
  | Dlsym pointer string
  | Dlclose nat
  | Calloc pointer
  | Free nat
  | Invoke nat "arg list"

text \<open>
  The environment the wrapper runs in, which the source does not determine: which
  paths \<open>dlopen\<close> can open and the handle it gives, which names \<open>dlsym\<close> resolves on
  a handle, and what the loaded library's functions return (which may depend on
  everything that happened before).
\<close>

record env =
  dlopen_os :: "string \<Rightarrow> pointer"
  dlsym_os :: "pointer \<Rightarrow> string \<Rightarrow> pointer"
  buffer_of_call :: "event list \<Rightarrow> nat \<Rightarrow> arg list \<Rightarrow> BamlCBuffer"
  pointer_of_call :: "event list \<Rightarrow> nat \<Rightarrow> arg list \<Rightarrow> pointer"

text \<open>
  The state: the OS library references held (one entry per successful \<open>dlopen\<close>
  not yet closed), the live \<open>BamlLibrary\<close> allocations, the blocks the allocator
  can still hand out (\<open>calloc\<close> fails when there is none), the caller's output
  cells of type \<open>const int8_t*\<close> and \<open>size_t\<close>, and the record of events.
\<close>

record world =
  opened :: "nat list"
  heap :: "nat \<Rightarrow> BamlLibrary option"
  free_blocks :: "nat list"
  ptr_cells :: "nat \<Rightarrow> pointer"
  len_cells :: "nat \<Rightarrow> 64 word"
  trace :: "event list"

text \<open>
  What C leaves undefined is a value of the model: reading a \<open>BamlLibrary\<close>
  through a pointer that is null or not live, storing through a null output
  pointer, reading an array past its end.
\<close>

datatype fault = Null_Deref | Dangling_Library | Null_Store | Out_Of_Bounds

definition and_then :: "fault + 'a \<Rightarrow> ('a \<Rightarrow> fault + 'b) \<Rightarrow> fault + 'b" where
  "and_then r f = (case r of Inl x \<Rightarrow> Inl x | Inr v \<Rightarrow> f v)"

section \<open>The primitives the wrapper calls\<close>

definition dlopen :: "env \<Rightarrow> string \<Rightarrow> world \<Rightarrow> pointer \<times> world" where
  "dlopen e path w =
     (case dlopen_os e path of
        NULL \<Rightarrow> (NULL, w\<lparr>trace := trace w @ [Dlopen path]\<rparr>)
      | Addr h \<Rightarrow> (Addr h, w\<lparr>opened := h # opened w, trace := trace w @ [Dlopen path]\<rparr>))"

definition dlsym :: "env \<Rightarrow> pointer \<Rightarrow> string \<Rightarrow> world \<Rightarrow> pointer \<times> world" where
  "dlsym e h name w = (dlsym_os e h name, w\<lparr>trace := trace w @ [Dlsym h name]\<rparr>)"

definition dlclose :: "nat \<Rightarrow> world \<Rightarrow> world" where
  "dlclose h w = w\<lparr>opened := remove1 h (opened w), trace := trace w @ [Dlclose h]\<rparr>"

definition calloc :: "world \<Rightarrow> pointer \<times> world" where
  "calloc w =
     (case free_blocks w of
        [] \<Rightarrow> (NULL, w\<lparr>trace := trace w @ [Calloc NULL]\<rparr>)
      | a # rest \<Rightarrow>
          (Addr a, w\<lparr>heap := (heap w)(a \<mapsto> zeroed), free_blocks := rest,
                      trace := trace w @ [Calloc (Addr a)]\<rparr>))"

definition free :: "nat \<Rightarrow> world \<Rightarrow> world" where
  "free a w = w\<lparr>heap := (heap w)(a := None), free_blocks := a # free_blocks w,
                trace := trace w @ [Free a]\<rparr>"

text \<open>\<open>lib->field\<close>: a read through the library pointer.\<close>

definition deref :: "pointer \<Rightarrow> world \<Rightarrow> fault + BamlLibrary" where
  "deref lib w =
     (case lib of
        NULL \<Rightarrow> Inl Null_Deref
      | Addr a \<Rightarrow> (case heap w a of None \<Rightarrow> Inl Dangling_Library | Some L \<Rightarrow> Inr L))"

text \<open>\<open>lib->field = v\<close>: a write through the library pointer.\<close>

definition assign :: "pointer \<Rightarrow> (BamlLibrary \<Rightarrow> BamlLibrary) \<Rightarrow> world \<Rightarrow> fault + world" where
  "assign lib upd w =
     (case lib of
        NULL \<Rightarrow> Inl Null_Deref
      | Addr a \<Rightarrow>
          (case heap w a of
             None \<Rightarrow> Inl Dangling_Library
           | Some L \<Rightarrow> Inr (w\<lparr>heap := (heap w)(a \<mapsto> upd L)\<rparr>)))"

text \<open>\<open>*out_ptr = v\<close> and \<open>*out_len = n\<close>.\<close>

definition store_ptr :: "pointer \<Rightarrow> pointer \<Rightarrow> world \<Rightarrow> fault + world" where
  "store_ptr loc v w =
     (case loc of
        NULL \<Rightarrow> Inl Null_Store
      | Addr p \<Rightarrow> Inr (w\<lparr>ptr_cells := (ptr_cells w)(p := v)\<rparr>))"

definition store_len :: "pointer \<Rightarrow> 64 word \<Rightarrow> world \<Rightarrow> fault + world" where
  "store_len loc n w =
     (case loc of
        NULL \<Rightarrow> Inl Null_Store
      | Addr q \<Rightarrow> Inr (w\<lparr>len_cells := (len_cells w)(q := n)\<rparr>))"

text \<open>A call through a resolved function pointer of the loaded library.\<close>

definition invoke_buffer :: "env \<Rightarrow> nat \<Rightarrow> arg list \<Rightarrow> world \<Rightarrow> BamlCBuffer \<times> world" where
  "invoke_buffer e f args w =
     (buffer_of_call e (trace w) f args, w\<lparr>trace := trace w @ [Invoke f args]\<rparr>)"

definition invoke_pointer :: "env \<Rightarrow> nat \<Rightarrow> arg list \<Rightarrow> world \<Rightarrow> pointer \<times> world" where
  "invoke_pointer e f args w =
     (pointer_of_call e (trace w) f args, w\<lparr>trace := trace w @ [Invoke f args]\<rparr>)"

definition invoke_void :: "nat \<Rightarrow> arg list \<Rightarrow> world \<Rightarrow> world" where
  "invoke_void f args w = w\<lparr>trace := trace w @ [Invoke f args]\<rparr>"

section \<open>Symbol table and library handle\<close>

text \<open>One statement \<open>lib->field = dlsym(lib->handle, name)\<close> of \<open>load_symbols\<close>.\<close>

definition resolve ::
  "env \<Rightarrow> pointer \<Rightarrow> string \<Rightarrow> (pointer \<Rightarrow> BamlLibrary \<Rightarrow> BamlLibrary) \<Rightarrow> world \<Rightarrow> fault + world" where
  "resolve e lib name set_field w =
     and_then (deref lib w) (\<lambda>L.
       let (p, w1) = dlsym e (handle L) name w in assign lib (set_field p) w1)"

definition load_symbols :: "env \<Rightarrow> pointer \<Rightarrow> world \<Rightarrow> fault + (bool \<times> world)" where
  "load_symbols e lib w =
     (if lib = NULL then Inr (False, w)
      else and_then (deref lib w) (\<lambda>L0.
        if handle L0 = NULL then Inr (False, w)
        else
          and_then (resolve e lib ''create_baml_runtime'' (\<lambda>p L. L\<lparr>create_runtime := p\<rparr>) w) (\<lambda>w1.
          and_then (resolve e lib ''destroy_baml_runtime'' (\<lambda>p L. L\<lparr>destroy_runtime := p\<rparr>) w1) (\<lambda>w2.
          and_then (resolve e lib ''call_function_from_c'' (\<lambda>p L. L\<lparr>call_function := p\<rparr>) w2) (\<lambda>w3.
          and_then (resolve e lib ''call_function_stream_from_c'' (\<lambda>p L. L\<lparr>call_function_stream := p\<rparr>) w3) (\<lambda>w4.
          and_then (resolve e lib ''call_object_constructor'' (\<lambda>p L. L\<lparr>call_object_constructor := p\<rparr>) w4) (\<lambda>w5.
          and_then (resolve e lib ''call_object_method'' (\<lambda>p L. L\<lparr>call_object_method := p\<rparr>) w5) (\<lambda>w6.
          and_then (resolve e lib ''free_buffer'' (\<lambda>p L. L\<lparr>free_buffer := p\<rparr>) w6) (\<lambda>w7.
          and_then (resolve e lib ''version'' (\<lambda>p L. L\<lparr>version := p\<rparr>) w7) (\<lambda>w8.
          and_then (resolve e lib ''register_callbacks'' (\<lambda>p L. L\<lparr>register_callbacks := p\<rparr>) w8) (\<lambda>w9.
          and_then (deref lib w9) (\<lambda>L.
            Inr (create_runtime L \<noteq> NULL \<and> call_function L \<noteq> NULL, w9)))))))))))))"

text \<open>
  \<open>baml_library_load\<close>. The path is a \<open>const char*\<close>: \<open>None\<close> is the null pointer.
  (The flags \<open>RTLD_NOW | RTLD_LOCAL\<close> are constants of the call and are not
  modelled.)
\<close>

definition baml_library_load :: "env \<Rightarrow> string option \<Rightarrow> world \<Rightarrow> fault + (pointer \<times> world)" where
  "baml_library_load e path w =
     (case path of
        None \<Rightarrow> Inr (NULL, w)
      | Some p \<Rightarrow>
          (case dlopen e p w of
             (NULL, w1) \<Rightarrow> Inr (NULL, w1)
           | (Addr h, w1) \<Rightarrow>
               (case calloc w1 of
                  (NULL, w2) \<Rightarrow> Inr (NULL, dlclose h w2)
                | (Addr a, w2) \<Rightarrow>
                    and_then (assign (Addr a) (\<lambda>L. L\<lparr>handle := Addr h\<rparr>) w2) (\<lambda>w3.
                    and_then (load_symbols e (Addr a) w3) (\<lambda>(ok, w4).
                      if \<not> ok then Inr (NULL, free a (dlclose h w4))
                      else Inr (Addr a, w4))))))"

text \<open>
  \<open>baml_library_load_default\<close>. The candidate array depends on the platform the
  file is compiled for (\<open>__APPLE__\<close>, \<open>__linux__\<close>, neither); each array ends with
  a null pointer.
\<close>

datatype platform = Apple | Linux | Other_platform

definition paths :: "platform \<Rightarrow> string option list" where
  "paths plat =
     (case plat of
        Apple \<Rightarrow>
          [Some ''libbaml_ffi.dylib'',
           Some ''./libbaml_ffi.dylib'',
           Some ''./lib/libbaml_ffi.dylib'',
           Some ''/usr/local/lib/libbaml_ffi.dylib'',
           Some ''BamlFFI.framework/BamlFFI'',
           None]
      | Linux \<Rightarrow>
          [Some ''libbaml_ffi.so'',
           Some ''./libbaml_ffi.so'',
           Some ''./lib/libbaml_ffi.so'',
           Some ''/usr/local/lib/libbaml_ffi.so'',
           Some ''/usr/lib/libbaml_ffi.so'',
           None]
      | Other_platform \<Rightarrow> [None])"

text \<open>
  The loop \<open>for (int i = 0; paths[i] != NULL; i++)\<close>, on the part of the array from
  index \<open>i\<close> on. Reading past the end of an array without its terminator would be
  out of bounds.
\<close>

fun probe :: "env \<Rightarrow> string option list \<Rightarrow> world \<Rightarrow> fault + (pointer \<times> world)" where
  "probe e [] w = Inl Out_Of_Bounds"
| "probe e (None # rest) w = Inr (NULL, w)"
| "probe e (Some p # rest) w =
     and_then (baml_library_load e (Some p) w) (\<lambda>(lib, w1).
       if lib \<noteq> NULL then Inr (lib, w1) else probe e rest w1)"

definition baml_library_load_default :: "env \<Rightarrow> platform \<Rightarrow> world \<Rightarrow> fault + (pointer \<times> world)" where
  "baml_library_load_default e plat w = probe e (paths plat) w"

definition baml_library_unload :: "pointer \<Rightarrow> world \<Rightarrow> fault + world" where
  "baml_library_unload lib w =
     (case lib of
        NULL \<Rightarrow> Inr w
      | Addr a \<Rightarrow>
          and_then (deref lib w) (\<lambda>L.
            let w1 = (case handle L of NULL \<Rightarrow> w | Addr h \<Rightarrow> dlclose h w)
            in Inr (free a w1)))"

definition baml_library_is_loaded :: "pointer \<Rightarrow> world \<Rightarrow> fault + bool" where
  "baml_library_is_loaded lib w =
     (if lib = NULL then Inr False
      else and_then (deref lib w) (\<lambda>L. Inr (handle L \<noteq> NULL)))"

section \<open>Call dispatcher\<close>

text \<open>
  The block every buffer-returning operation runs when its validation fails:
  \<open>if (out_ptr) *out_ptr = NULL; if (out_len) *out_len = 0; return;\<close>
\<close>

definition null_outputs :: "pointer \<Rightarrow> pointer \<Rightarrow> world \<Rightarrow> fault + world" where
  "null_outputs out_ptr out_len w =
     and_then (if out_ptr \<noteq> NULL then store_ptr out_ptr NULL w else Inr w) (\<lambda>w1.
       if out_len \<noteq> NULL then store_len out_len 0 w1 else Inr w1)"

text \<open>The tail \<open>*out_ptr = result.ptr; *out_len = result.len;\<close>\<close>

definition return_buffer :: "BamlCBuffer \<Rightarrow> pointer \<Rightarrow> pointer \<Rightarrow> world \<Rightarrow> fault + world" where
  "return_buffer result out_ptr out_len w =
     and_then (store_ptr out_ptr (ptr result) w) (\<lambda>w1. store_len out_len (len result) w1)"

definition baml_version :: "env \<Rightarrow> pointer \<Rightarrow> pointer \<Rightarrow> pointer \<Rightarrow> world \<Rightarrow> fault + world" where
  "baml_version e lib out_ptr out_len w =
     (if lib = NULL then null_outputs out_ptr out_len w
      else and_then (deref lib w) (\<lambda>L.
        case version L of
          NULL \<Rightarrow> null_outputs out_ptr out_len w
        | Addr f \<Rightarrow>
            if out_ptr = NULL \<or> out_len = NULL then null_outputs out_ptr out_len w
            else
              let (result, w1) = invoke_buffer e f [] w
              in return_buffer result out_ptr out_len w1))"

definition baml_create_runtime ::
  "env \<Rightarrow> pointer \<Rightarrow> pointer \<Rightarrow> pointer \<Rightarrow> pointer \<Rightarrow> world \<Rightarrow> fault + (pointer \<times> world)" where
  "baml_create_runtime e lib root_path src_files_json env_vars_json w =
     (if lib = NULL then Inr (NULL, w)
      else and_then (deref lib w) (\<lambda>L.
        case create_runtime L of
          NULL \<Rightarrow> Inr (NULL, w)
        | Addr f \<Rightarrow>
            Inr (invoke_pointer e f
              [Pointer_arg root_path, Pointer_arg src_files_json, Pointer_arg env_vars_json] w)))"

definition baml_destroy_runtime :: "env \<Rightarrow> pointer \<Rightarrow> pointer \<Rightarrow> world \<Rightarrow> fault + world" where
  "baml_destroy_runtime e lib runtime w =
     (if lib = NULL then Inr w
      else and_then (deref lib w) (\<lambda>L.
        case destroy_runtime L of
          NULL \<Rightarrow> Inr w
        | Addr f \<Rightarrow>
            if runtime = NULL then Inr w
            else Inr (invoke_void f [Pointer_arg runtime] w)))"

definition baml_call_function ::
  "env \<Rightarrow> pointer \<Rightarrow> pointer \<Rightarrow> pointer \<Rightarrow> pointer \<Rightarrow> 64 word \<Rightarrow> 32 word \<Rightarrow> pointer \<Rightarrow> pointer
     \<Rightarrow> world \<Rightarrow> fault + world" where
  "baml_call_function e lib runtime function_name encoded_args args_len call_id out_ptr out_len w =
     (if lib = NULL then null_outputs out_ptr out_len w
      else and_then (deref lib w) (\<lambda>L.
        case call_function L of
          NULL \<Rightarrow> null_outputs out_ptr out_len w
        | Addr f \<Rightarrow>
            if runtime = NULL \<or> out_ptr = NULL \<or> out_len = NULL
            then null_outputs out_ptr out_len w
            else
              let (result, w1) = invoke_buffer e f
                    [Pointer_arg runtime, Pointer_arg function_name, Pointer_arg encoded_args,
                     Size_arg args_len, Uint32_arg call_id] w
              in return_buffer result out_ptr out_len w1))"

definition baml_call_function_stream ::
  "env \<Rightarrow> pointer \<Rightarrow> pointer \<Rightarrow> pointer \<Rightarrow> pointer \<Rightarrow> 64 word \<Rightarrow> 32 word \<Rightarrow> pointer \<Rightarrow> pointer
     \<Rightarrow> world \<Rightarrow> fault + world" where
  "baml_call_function_stream e lib runtime function_name encoded_args args_len call_id out_ptr out_len w =
     (if lib = NULL then null_outputs out_ptr out_len w
      else and_then (deref lib w) (\<lambda>L.
        case call_function_stream L of
          NULL \<Rightarrow> null_outputs out_ptr out_len w
        | Addr f \<Rightarrow>
            if runtime = NULL \<or> out_ptr = NULL \<or> out_len = NULL
            then null_outputs out_ptr out_len w
            else
              let (result, w1) = invoke_buffer e f
                    [Pointer_arg runtime, Pointer_arg function_name, Pointer_arg encoded_args,
                     Size_arg args_len, Uint32_arg call_id] w
              in return_buffer result out_ptr out_len w1))"

definition baml_call_object_constructor ::
  "env \<Rightarrow> pointer \<Rightarrow> pointer \<Rightarrow> 64 word \<Rightarrow> pointer \<Rightarrow> pointer \<Rightarrow> world \<Rightarrow> fault + world" where
  "baml_call_object_constructor e lib encoded_args args_len out_ptr out_len w =
     (if lib = NULL then null_outputs out_ptr out_len w
      else and_then (deref lib w) (\<lambda>L.
        case call_object_constructor L of
          NULL \<Rightarrow> null_outputs out_ptr out_len w
        | Addr f \<Rightarrow>
            if out_ptr = NULL \<or> out_len = NULL then null_outputs out_ptr out_len w
            else
              let (result, w1) = invoke_buffer e f
                    [Pointer_arg encoded_args, Size_arg args_len] w
              in return_buffer result out_ptr out_len w1))"

definition baml_call_object_method ::
  "env \<Rightarrow> pointer \<Rightarrow> pointer \<Rightarrow> pointer \<Rightarrow> 64 word \<Rightarrow> pointer \<Rightarrow> pointer \<Rightarrow> world \<Rightarrow> fault + world" where
  "baml_call_object_method e lib runtime encoded_args args_len out_ptr out_len w =
     (if lib = NULL then null_outputs out_ptr out_len w
      else and_then (deref lib w) (\<lambda>L.
        case call_object_method L of
          NULL \<Rightarrow> null_outputs out_ptr out_len w
        | Addr f \<Rightarrow>
            if runtime = NULL \<or> out_ptr = NULL \<or> out_len = NULL
            then null_outputs out_ptr out_len w
            else
              let (result, w1) = invoke_buffer e f
                    [Pointer_arg runtime, Pointer_arg encoded_args, Size_arg args_len] w
              in return_buffer result out_ptr out_len w1))"

section \<open>Buffer release and callback registry\<close>

definition baml_free_buffer :: "env \<Rightarrow> pointer \<Rightarrow> pointer \<Rightarrow> 64 word \<Rightarrow> world \<Rightarrow> fault + world" where
  "baml_free_buffer e lib p n w =
     (if lib = NULL then Inr w
      else and_then (deref lib w) (\<lambda>L.
        case free_buffer L of
          NULL \<Rightarrow> Inr w
        | Addr f \<Rightarrow>
            if p = NULL then Inr w
            else Inr (invoke_void f [Pointer_arg p, Size_arg n] w)))"

definition baml_register_callbacks ::
  "env \<Rightarrow> pointer \<Rightarrow> pointer \<Rightarrow> pointer \<Rightarrow> pointer \<Rightarrow> world \<Rightarrow> fault + world" where
  "baml_register_callbacks e lib result_cb error_cb tick_cb w =
     (if lib = NULL then Inr w
      else and_then (deref lib w) (\<lambda>L.
        case register_callbacks L of
          NULL \<Rightarrow> Inr w
        | Addr f \<Rightarrow>
            Inr (invoke_void f
              [Pointer_arg result_cb, Pointer_arg error_cb, Pointer_arg tick_cb] w)))"

section \<open>Vocabulary of the statements\<close>

text \<open>
  The nine names \<open>load_symbols\<close> looks up, in its order, and the table it leaves
  behind \<open>lib\<close> for a handle \<open>h\<close>: every field is what \<open>dlsym\<close> gave for its name.
\<close>

definition symbol_names :: "string list" where
  "symbol_names =
     [''create_baml_runtime'', ''destroy_baml_runtime'', ''call_function_from_c'',
      ''call_function_stream_from_c'', ''call_object_constructor'', ''call_object_method'',
      ''free_buffer'', ''version'', ''register_callbacks'']"

definition resolved :: "env \<Rightarrow> pointer \<Rightarrow> BamlLibrary" where
  "resolved e h =
     \<lparr>handle = h,
      create_runtime = dlsym_os e h ''create_baml_runtime'',
      destroy_runtime = dlsym_os e h ''destroy_baml_runtime'',
      call_function = dlsym_os e h ''call_function_from_c'',
      call_function_stream = dlsym_os e h ''call_function_stream_from_c'',
      call_object_constructor = dlsym_os e h ''call_object_constructor'',
      call_object_method = dlsym_os e h ''call_object_method'',
      free_buffer = dlsym_os e h ''free_buffer'',
      version = dlsym_os e h ''version'',
      register_callbacks = dlsym_os e h ''register_callbacks''\<rparr>"

text \<open>The library behind handle \<open>h\<close> exports both mandatory symbols.\<close>

definition mandatory :: "env \<Rightarrow> pointer \<Rightarrow> bool" where
  "mandatory e h =
     (dlsym_os e h ''create_baml_runtime'' \<noteq> NULL \<and>
      dlsym_os e h ''call_function_from_c'' \<noteq> NULL)"

text \<open>
  A library pointer a caller may pass: null, or the address of a live
  \<open>BamlLibrary\<close>. (Passing anything else is a use after free.)
\<close>

definition usable :: "pointer \<Rightarrow> world \<Rightarrow> bool" where
  "usable lib w = (case lib of NULL \<Rightarrow> True | Addr a \<Rightarrow> heap w a \<noteq> None)"

text \<open>
  The library handle is null, or it is live and the function pointer \<open>fp\<close> of its
  table was not resolved.
\<close>

definition absent :: "(BamlLibrary \<Rightarrow> pointer) \<Rightarrow> pointer \<Rightarrow> world \<Rightarrow> bool" where
  "absent fp lib w =
     (case lib of
        NULL \<Rightarrow> True
      | Addr a \<Rightarrow> (case heap w a of None \<Rightarrow> False | Some L \<Rightarrow> fp L = NULL))"

text \<open>
  The outcome "not attempted" of a buffer-returning operation: it returns (no
  fault), the record of events is as before (nothing was invoked), each output
  location that is not null holds null resp. zero, and nothing else changed.
\<close>

definition rejected :: "pointer \<Rightarrow> pointer \<Rightarrow> world \<Rightarrow> fault + world \<Rightarrow> bool" where
  "rejected out_ptr out_len w r =
     (case r of
        Inl x \<Rightarrow> False
      | Inr w' \<Rightarrow>
          trace w' = trace w \<and> opened w' = opened w \<and> heap w' = heap w \<and>
          free_blocks w' = free_blocks w \<and>
          ptr_cells w' =
            (case out_ptr of NULL \<Rightarrow> ptr_cells w | Addr p \<Rightarrow> (ptr_cells w)(p := NULL)) \<and>
          len_cells w' =
            (case out_len of NULL \<Rightarrow> len_cells w | Addr q \<Rightarrow> (len_cells w)(q := 0)))"

text \<open>
  The outcome "forwarded" of a buffer-returning operation with output locations
  \<open>p\<close> and \<open>q\<close>: it returns, exactly one event was added, the call of \<open>f\<close> on \<open>args\<close>,
  the two cells hold the pointer and the length of the buffer that call returned,
  and nothing else changed.
\<close>

definition forwarded ::
  "env \<Rightarrow> nat \<Rightarrow> arg list \<Rightarrow> nat \<Rightarrow> nat \<Rightarrow> world \<Rightarrow> fault + world \<Rightarrow> bool" where
  "forwarded e f args p q w r =
     (case r of
        Inl x \<Rightarrow> False
      | Inr w' \<Rightarrow>
          trace w' = trace w @ [Invoke f args] \<and>
          ptr_cells w' = (ptr_cells w)(p := ptr (buffer_of_call e (trace w) f args)) \<and>
          len_cells w' = (len_cells w)(q := len (buffer_of_call e (trace w) f args)) \<and>
          opened w' = opened w \<and> heap w' = heap w \<and> free_blocks w' = free_blocks w)"

text \<open>The allocator's invariant: a block it can hand out is not live.\<close>

definition allocator_ok :: "world \<Rightarrow> bool" where
  "allocator_ok w = (\<forall>a \<in> set (free_blocks w). heap w a = None)"

text \<open>The paths given to \<open>dlopen\<close>, in the order of the calls.\<close>

fun dlopens :: "event list \<Rightarrow> string list" where
  "dlopens [] = []"
| "dlopens (Dlopen p # es) = p # dlopens es"
| "dlopens (x # es) = dlopens es"

text \<open>The candidate paths of an array: its entries before the terminating null.\<close>

fun candidates :: "string option list \<Rightarrow> string list" where
  "candidates [] = []"
| "candidates (None # rest) = []"
| "candidates (Some p # rest) = p # candidates rest"

text \<open>
  Two states that differ at most in the record of events and in what the heap
  holds at the block the allocator hands out next (which \<open>calloc\<close> overwrites).
\<close>

definition alike :: "world \<Rightarrow> world \<Rightarrow> bool" where
  "alike w1 w2 =
     (opened w1 = opened w2 \<and> free_blocks w1 = free_blocks w2 \<and>
      ptr_cells w1 = ptr_cells w2 \<and> len_cells w1 = len_cells w2 \<and>
      (\<forall>b. b \<notin> set (take 1 (free_blocks w2)) \<longrightarrow> heap w1 b = heap w2 b))"

text \<open>Two states that differ at most in the record of events.\<close>

definition same_resources :: "world \<Rightarrow> world \<Rightarrow> bool" where
  "same_resources w1 w2 =
     (opened w1 = opened w2 \<and> heap w1 = heap w2 \<and> free_blocks w1 = free_blocks w2 \<and>
      ptr_cells w1 = ptr_cells w2 \<and> len_cells w1 = len_cells w2)"

subsection \<open>A concrete environment\<close>

text \<open>
  A stub library at \<open>./libbaml_ffi.so\<close> (handle 7) that exports only the two
  mandatory symbols, a full library at \<open>/usr/lib/libbaml_ffi.so\<close> (handle 8) that
  exports all nine, and a file at \<open>/tmp/other.so\<close> (handle 9) that exports none.
  A call of the function at address \<open>f\<close> returns the buffer at \<open>500 + f\<close> whose
  length is the number of arguments, resp. the pointer \<open>900 + f\<close>.
\<close>

definition full_symbols :: "string \<Rightarrow> pointer" where
  "full_symbols name =
     (if name = ''create_baml_runtime'' then Addr 201
      else if name = ''destroy_baml_runtime'' then Addr 202
      else if name = ''call_function_from_c'' then Addr 203
      else if name = ''call_function_stream_from_c'' then Addr 204
      else if name = ''call_object_constructor'' then Addr 205
      else if name = ''call_object_method'' then Addr 206
      else if name = ''free_buffer'' then Addr 207
      else if name = ''version'' then Addr 208
      else if name = ''register_callbacks'' then Addr 209
      else NULL)"

definition stub_env :: env where
  "stub_env =
     \<lparr>dlopen_os = (\<lambda>p. if p = ''./libbaml_ffi.so'' then Addr 7
                        else if p = ''/usr/lib/libbaml_ffi.so'' then Addr 8
                        else if p = ''/tmp/other.so'' then Addr 9 else NULL),
      dlsym_os = (\<lambda>h name.
         if h = Addr 7 \<and> name = ''create_baml_runtime'' then Addr 100
         else if h = Addr 7 \<and> name = ''call_function_from_c'' then Addr 101
         else if h = Addr 8 then full_symbols name
         else NULL),
      buffer_of_call = (\<lambda>t f args. \<lparr>ptr = Addr (500 + f), len = of_nat (length args)\<rparr>),
      pointer_of_call = (\<lambda>t f args. Addr (900 + f))\<rparr>"

text \<open>A state with nothing open, nothing allocated and two blocks (3 and 4) to hand out.\<close>

definition world0 :: world where
  "world0 =
     \<lparr>opened = [], heap = Map.empty, free_blocks = [3, 4],
      ptr_cells = (\<lambda>p. Addr 42), len_cells = (\<lambda>q. 99), trace = []\<rparr>"

text \<open>The state after \<open>baml_library_load\<close> of the stub library in \<open>world0\<close>.\<close>

definition stub_world :: world where
  "stub_world =
     \<lparr>opened = [7], heap = [3 \<mapsto> resolved stub_env (Addr 7)],
      free_blocks = [4], ptr_cells = (\<lambda>p. Addr 42), len_cells = (\<lambda>q. 99),
      trace = [Dlopen ''./libbaml_ffi.so'', Calloc (Addr 3)] @ map (Dlsym (Addr 7)) symbol_names\<rparr>"

text \<open>The state after \<open>baml_library_load\<close> of the full library in \<open>world0\<close>.\<close>

definition full_world :: world where
  "full_world =
     \<lparr>opened = [8], heap = [3 \<mapsto> resolved stub_env (Addr 8)],
      free_blocks = [4], ptr_cells = (\<lambda>p. Addr 42), len_cells = (\<lambda>q. 99),
      trace = [Dlopen ''/usr/lib/libbaml_ffi.so'', Calloc (Addr 3)] @ map (Dlsym (Addr 8)) symbol_names\<rparr>"

section \<open>Verification\<close>

subsection \<open>What \<open>load_symbols\<close> and \<open>baml_library_load\<close> compute\<close>

lemma resolve_live:
  "heap w a = Some L \<Longrightarrow>
   resolve e (Addr a) name set_field w =
     Inr (w\<lparr>heap := (heap w)(a \<mapsto> set_field (dlsym_os e (handle L) name) L),
            trace := trace w @ [Dlsym (handle L) name]\<rparr>)"
  by (simp add: resolve_def deref_def and_then_def dlsym_def assign_def)

lemma load_symbols_live:
  assumes "heap w a = Some L" and "handle L = Addr h"
  shows "load_symbols e (Addr a) w =
     Inr (mandatory e (Addr h),
          w\<lparr>heap := (heap w)(a \<mapsto> (resolved e (Addr h))),
            trace := trace w @ map (Dlsym (Addr h)) symbol_names\<rparr>)"
  using assms
  by (cases L)
     (simp add: load_symbols_def resolve_live deref_def and_then_def mandatory_def
        resolved_def symbol_names_def)

lemma load_open_fails:
  "dlopen_os e p = NULL \<Longrightarrow>
   baml_library_load e (Some p) w = Inr (NULL, w\<lparr>trace := trace w @ [Dlopen p]\<rparr>)"
  by (simp add: baml_library_load_def dlopen_def)

lemma load_alloc_fails:
  "dlopen_os e p = Addr h \<Longrightarrow> free_blocks w = [] \<Longrightarrow>
   baml_library_load e (Some p) w =
     Inr (NULL, w\<lparr>trace := trace w @ [Dlopen p, Calloc NULL, Dlclose h]\<rparr>)"
  by (simp add: baml_library_load_def dlopen_def calloc_def dlclose_def)

lemma load_after_calloc:
  assumes "dlopen_os e p = Addr h" and "free_blocks w = a # rest"
  shows "baml_library_load e (Some p) w =
     (let w4 = w\<lparr>opened := h # opened w,
                  heap := (heap w)(a \<mapsto> resolved e (Addr h)),
                  free_blocks := rest,
                  trace := trace w @ [Dlopen p, Calloc (Addr a)] @ map (Dlsym (Addr h)) symbol_names\<rparr>
      in if mandatory e (Addr h) then Inr (Addr a, w4) else Inr (NULL, free a (dlclose h w4)))"
  using assms
  by (simp add: baml_library_load_def dlopen_def calloc_def assign_def and_then_def
      load_symbols_live [where L = "zeroed\<lparr>handle := Addr h\<rparr>" and h = h] Let_def
      free_def dlclose_def)

lemma load_symbols_missing:
  assumes "dlopen_os e p = Addr h" and "free_blocks w = a # rest" and "\<not> mandatory e (Addr h)"
  shows "baml_library_load e (Some p) w =
     Inr (NULL, w\<lparr>heap := (heap w)(a := None),
                  trace := trace w @ [Dlopen p, Calloc (Addr a)] @ map (Dlsym (Addr h)) symbol_names
                             @ [Dlclose h, Free a]\<rparr>)"
  using assms by (simp add: load_after_calloc free_def dlclose_def)

lemma load_succeeds:
  assumes "dlopen_os e p = Addr h" and "free_blocks w = a # rest" and "mandatory e (Addr h)"
  shows "baml_library_load e (Some p) w =
     Inr (Addr a, w\<lparr>opened := h # opened w,
                  heap := (heap w)(a \<mapsto> resolved e (Addr h)),
                  free_blocks := rest,
                  trace := trace w @ [Dlopen p, Calloc (Addr a)] @ map (Dlsym (Addr h)) symbol_names\<rparr>)"
  using assms by (simp add: load_after_calloc)

subsection \<open>A null path\<close>

text \<open>
  C9. \<open>baml_library_load\<close> with a null path returns null and leaves the state as
  it was: in particular the record of events gains no \<open>Dlopen\<close>, so no library,
  and not the host executable (which \<open>dlopen(NULL)\<close> would give), is opened.
\<close>

theorem load_null_path: "baml_library_load e None w = Inr (NULL, w)"
  by (simp add: baml_library_load_def)

subsection \<open>Concrete runs\<close>

lemma load_stub: "baml_library_load stub_env (Some ''./libbaml_ffi.so'') world0 = Inr (Addr 3, stub_world)"
  apply (subst load_succeeds [where h = 7 and a = 3 and rest = "[4]"])
  apply (simp_all add: stub_env_def world0_def mandatory_def stub_world_def)
  done

lemma load_full: "baml_library_load stub_env (Some ''/usr/lib/libbaml_ffi.so'') world0 = Inr (Addr 3, full_world)"
  apply (subst load_succeeds [where h = 8 and a = 3 and rest = "[4]"])
  apply (simp_all add: stub_env_def world0_def mandatory_def full_world_def full_symbols_def)
  done

subsection \<open>Validation failures of the dispatcher\<close>

lemma null_outputs_rejected: "rejected out_ptr out_len w (null_outputs out_ptr out_len w)"
  by (cases out_ptr; cases out_len)
     (simp_all add: rejected_def null_outputs_def and_then_def store_ptr_def store_len_def)

lemma return_buffer_live:
  "return_buffer b (Addr p) (Addr q) w =
     Inr (w\<lparr>ptr_cells := (ptr_cells w)(p := ptr b), len_cells := (len_cells w)(q := len b)\<rparr>)"
  by (simp add: return_buffer_def and_then_def store_ptr_def store_len_def)

lemma absent_cases:
  "absent fp lib w \<Longrightarrow> lib = NULL \<or> (\<exists>a L. lib = Addr a \<and> heap w a = Some L \<and> fp L = NULL)"
  by (auto simp: absent_def split: pointer.splits option.splits)

lemma usable_cases:
  "usable lib w \<Longrightarrow> lib = NULL \<or> (\<exists>a L. lib = Addr a \<and> heap w a = Some L)"
  by (auto simp: usable_def split: pointer.splits)

lemma version_rejects:
  "absent version lib w \<Longrightarrow> rejected out_ptr out_len w (baml_version e lib out_ptr out_len w)"
  by (auto dest!: absent_cases simp: baml_version_def deref_def and_then_def null_outputs_rejected)

lemma create_runtime_rejects:
  "absent create_runtime lib w \<Longrightarrow>
   baml_create_runtime e lib root_path src_files_json env_vars_json w = Inr (NULL, w)"
  by (auto dest!: absent_cases simp: baml_create_runtime_def deref_def and_then_def)

lemma destroy_runtime_rejects:
  "absent destroy_runtime lib w \<or> usable lib w \<and> runtime = NULL \<Longrightarrow>
   baml_destroy_runtime e lib runtime w = Inr w"
  by (auto dest!: absent_cases usable_cases simp: baml_destroy_runtime_def deref_def and_then_def
      split: pointer.splits)

lemma call_function_rejects:
  "absent call_function lib w \<or> usable lib w \<and> runtime = NULL \<Longrightarrow>
   rejected out_ptr out_len w
     (baml_call_function e lib runtime function_name encoded_args args_len call_id out_ptr out_len w)"
  by (auto dest!: absent_cases usable_cases simp: baml_call_function_def deref_def and_then_def
      null_outputs_rejected split: pointer.splits)

lemma call_function_stream_rejects:
  "absent call_function_stream lib w \<or> usable lib w \<and> runtime = NULL \<Longrightarrow>
   rejected out_ptr out_len w
     (baml_call_function_stream e lib runtime function_name encoded_args args_len call_id out_ptr out_len w)"
  by (auto dest!: absent_cases usable_cases simp: baml_call_function_stream_def deref_def and_then_def
      null_outputs_rejected split: pointer.splits)

lemma call_object_constructor_rejects:
  "absent call_object_constructor lib w \<Longrightarrow>
   rejected out_ptr out_len w
     (baml_call_object_constructor e lib encoded_args args_len out_ptr out_len w)"
  by (auto dest!: absent_cases simp: baml_call_object_constructor_def deref_def and_then_def
      null_outputs_rejected)

lemma call_object_method_rejects:
  "absent call_object_method lib w \<or> usable lib w \<and> runtime = NULL \<Longrightarrow>
   rejected out_ptr out_len w
     (baml_call_object_method e lib runtime encoded_args args_len out_ptr out_len w)"
  by (auto dest!: absent_cases usable_cases simp: baml_call_object_method_def deref_def and_then_def
      null_outputs_rejected split: pointer.splits)

text \<open>
  C1. For each of the seven dispatcher operations: if the library handle is null,
  or it is live and the operation's own function pointer was not resolved, or (for
  the operations that require one) the handle is usable and the runtime argument
  is null, then the operation returns with the record of events unchanged (no
  symbol of the library was invoked). The buffer-returning operations leave null
  and zero in the output locations they were given; \<open>baml_create_runtime\<close>
  returns null; \<open>baml_destroy_runtime\<close> changes nothing.
\<close>

theorem dispatcher_rejects_invalid:
  "(absent version lib w \<longrightarrow>
      rejected out_ptr out_len w (baml_version e lib out_ptr out_len w)) \<and>
   (absent create_runtime lib w \<longrightarrow>
      baml_create_runtime e lib root_path src_files_json env_vars_json w = Inr (NULL, w)) \<and>
   (absent destroy_runtime lib w \<or> usable lib w \<and> runtime = NULL \<longrightarrow>
      baml_destroy_runtime e lib runtime w = Inr w) \<and>
   (absent call_function lib w \<or> usable lib w \<and> runtime = NULL \<longrightarrow>
      rejected out_ptr out_len w
        (baml_call_function e lib runtime function_name encoded_args args_len call_id
           out_ptr out_len w)) \<and>
   (absent call_function_stream lib w \<or> usable lib w \<and> runtime = NULL \<longrightarrow>
      rejected out_ptr out_len w
        (baml_call_function_stream e lib runtime function_name encoded_args args_len call_id
           out_ptr out_len w)) \<and>
   (absent call_object_constructor lib w \<longrightarrow>
      rejected out_ptr out_len w
        (baml_call_object_constructor e lib encoded_args args_len out_ptr out_len w)) \<and>
   (absent call_object_method lib w \<or> usable lib w \<and> runtime = NULL \<longrightarrow>
      rejected out_ptr out_len w
        (baml_call_object_method e lib runtime encoded_args args_len out_ptr out_len w))"
proof (intro conjI impI)
  assume "absent version lib w"
  then show "rejected out_ptr out_len w (baml_version e lib out_ptr out_len w)"
    by (rule version_rejects)
next
  assume "absent create_runtime lib w"
  then show "baml_create_runtime e lib root_path src_files_json env_vars_json w = Inr (NULL, w)"
    by (rule create_runtime_rejects)
next
  assume "absent destroy_runtime lib w \<or> usable lib w \<and> runtime = NULL"
  then show "baml_destroy_runtime e lib runtime w = Inr w"
    by (rule destroy_runtime_rejects)
next
  assume "absent call_function lib w \<or> usable lib w \<and> runtime = NULL"
  then show "rejected out_ptr out_len w
        (baml_call_function e lib runtime function_name encoded_args args_len call_id
           out_ptr out_len w)"
    by (rule call_function_rejects)
next
  assume "absent call_function_stream lib w \<or> usable lib w \<and> runtime = NULL"
  then show "rejected out_ptr out_len w
        (baml_call_function_stream e lib runtime function_name encoded_args args_len call_id
           out_ptr out_len w)"
    by (rule call_function_stream_rejects)
next
  assume "absent call_object_constructor lib w"
  then show "rejected out_ptr out_len w
        (baml_call_object_constructor e lib encoded_args args_len out_ptr out_len w)"
    by (rule call_object_constructor_rejects)
next
  assume "absent call_object_method lib w \<or> usable lib w \<and> runtime = NULL"
  then show "rejected out_ptr out_len w
        (baml_call_object_method e lib runtime encoded_args args_len out_ptr out_len w)"
    by (rule call_object_method_rejects)
qed

theorem dispatcher_rejects_invalid_witness:
  "absent version (Addr 3) stub_world \<and>
   rejected (Addr 10) (Addr 11) stub_world
     (baml_version stub_env (Addr 3) (Addr 10) (Addr 11) stub_world) \<and>
   absent destroy_runtime (Addr 3) stub_world \<and>
   baml_destroy_runtime stub_env (Addr 3) (Addr 30) stub_world = Inr stub_world \<and>
   \<not> absent call_function (Addr 3) stub_world \<and> usable (Addr 3) stub_world \<and>
   rejected (Addr 10) (Addr 11) stub_world
     (baml_call_function stub_env (Addr 3) NULL (Addr 20) (Addr 21) 4 42 (Addr 10) (Addr 11)
        stub_world) \<and>
   absent call_function_stream (Addr 3) stub_world \<and>
   rejected (Addr 10) (Addr 11) stub_world
     (baml_call_function_stream stub_env (Addr 3) (Addr 30) (Addr 20) (Addr 21) 4 42 (Addr 10)
        (Addr 11) stub_world) \<and>
   absent call_object_constructor (Addr 3) stub_world \<and>
   rejected (Addr 10) (Addr 11) stub_world
     (baml_call_object_constructor stub_env (Addr 3) (Addr 21) 4 (Addr 10) (Addr 11) stub_world) \<and>
   absent call_object_method (Addr 3) stub_world \<and>
   rejected (Addr 10) (Addr 11) stub_world
     (baml_call_object_method stub_env (Addr 3) (Addr 30) (Addr 21) 4 (Addr 10) (Addr 11)
        stub_world) \<and>
   absent create_runtime NULL world0 \<and>
   baml_create_runtime stub_env NULL (Addr 1) (Addr 2) (Addr 3) world0 = Inr (NULL, world0)"
proof -
  have stub: "heap stub_world 3 = Some (resolved stub_env (Addr 7))"
    by (simp add: stub_world_def)
  have tab:
    "version (resolved stub_env (Addr 7)) = NULL"
    "destroy_runtime (resolved stub_env (Addr 7)) = NULL"
    "call_function (resolved stub_env (Addr 7)) = Addr 101"
    "call_function_stream (resolved stub_env (Addr 7)) = NULL"
    "call_object_constructor (resolved stub_env (Addr 7)) = NULL"
    "call_object_method (resolved stub_env (Addr 7)) = NULL"
    by (simp_all add: resolved_def stub_env_def)
  have hyps:
    "absent version (Addr 3) stub_world"
    "absent destroy_runtime (Addr 3) stub_world"
    "\<not> absent call_function (Addr 3) stub_world"
    "usable (Addr 3) stub_world"
    "absent call_function_stream (Addr 3) stub_world"
    "absent call_object_constructor (Addr 3) stub_world"
    "absent call_object_method (Addr 3) stub_world"
    "absent create_runtime NULL world0"
    by (simp_all add: absent_def usable_def stub tab)
  note at_stub = dispatcher_rejects_invalid
    [where lib = "Addr 3" and w = stub_world and e = stub_env and out_ptr = "Addr 10"
       and out_len = "Addr 11" and function_name = "Addr 20" and encoded_args = "Addr 21"
       and args_len = 4 and call_id = 42]
  note at_null = dispatcher_rejects_invalid
    [where lib = NULL and w = world0 and e = stub_env and root_path = "Addr 1"
       and src_files_json = "Addr 2" and env_vars_json = "Addr 3"]
  from hyps at_stub [where runtime = "Addr 30"] at_stub [where runtime = NULL] at_null
  show ?thesis by blast
qed

subsection \<open>Null output locations\<close>

lemma full_heap: "heap full_world 3 = Some (resolved stub_env (Addr 8))"
  by (simp add: full_world_def)

lemma full_table:
  "create_runtime (resolved stub_env (Addr 8)) = Addr 201"
  "destroy_runtime (resolved stub_env (Addr 8)) = Addr 202"
  "call_function (resolved stub_env (Addr 8)) = Addr 203"
  "call_function_stream (resolved stub_env (Addr 8)) = Addr 204"
  "call_object_constructor (resolved stub_env (Addr 8)) = Addr 205"
  "call_object_method (resolved stub_env (Addr 8)) = Addr 206"
  "free_buffer (resolved stub_env (Addr 8)) = Addr 207"
  "version (resolved stub_env (Addr 8)) = Addr 208"
  "register_callbacks (resolved stub_env (Addr 8)) = Addr 209"
  by (simp_all add: resolved_def stub_env_def full_symbols_def)

lemma version_null_output:
  "usable lib w \<Longrightarrow> out_ptr = NULL \<or> out_len = NULL \<Longrightarrow>
   rejected out_ptr out_len w (baml_version e lib out_ptr out_len w)"
  by (auto dest!: usable_cases simp: baml_version_def deref_def and_then_def null_outputs_rejected
      split: pointer.splits)

lemma call_function_null_output:
  "usable lib w \<Longrightarrow> out_ptr = NULL \<or> out_len = NULL \<Longrightarrow>
   rejected out_ptr out_len w
     (baml_call_function e lib runtime function_name encoded_args args_len call_id out_ptr out_len w)"
  by (auto dest!: usable_cases simp: baml_call_function_def deref_def and_then_def
      null_outputs_rejected split: pointer.splits)

lemma call_function_stream_null_output:
  "usable lib w \<Longrightarrow> out_ptr = NULL \<or> out_len = NULL \<Longrightarrow>
   rejected out_ptr out_len w
     (baml_call_function_stream e lib runtime function_name encoded_args args_len call_id out_ptr out_len w)"
  by (auto dest!: usable_cases simp: baml_call_function_stream_def deref_def and_then_def
      null_outputs_rejected split: pointer.splits)

lemma call_object_constructor_null_output:
  "usable lib w \<Longrightarrow> out_ptr = NULL \<or> out_len = NULL \<Longrightarrow>
   rejected out_ptr out_len w
     (baml_call_object_constructor e lib encoded_args args_len out_ptr out_len w)"
  by (auto dest!: usable_cases simp: baml_call_object_constructor_def deref_def and_then_def
      null_outputs_rejected split: pointer.splits)

lemma call_object_method_null_output:
  "usable lib w \<Longrightarrow> out_ptr = NULL \<or> out_len = NULL \<Longrightarrow>
   rejected out_ptr out_len w
     (baml_call_object_method e lib runtime encoded_args args_len out_ptr out_len w)"
  by (auto dest!: usable_cases simp: baml_call_object_method_def deref_def and_then_def
      null_outputs_rejected split: pointer.splits)

text \<open>
  C10. For each of the five buffer-returning operations, on a usable library
  handle: if \<open>out_ptr\<close> or \<open>out_len\<close> is null, the operation returns without a
  fault (a store through a null location would be the fault \<open>Null_Store\<close>), the
  record of events is unchanged (nothing was invoked), the output location that
  is not null holds null resp. zero, and no other cell changed.
\<close>

theorem null_output_location_safe:
  assumes "usable lib w" and "out_ptr = NULL \<or> out_len = NULL"
  shows
    "rejected out_ptr out_len w (baml_version e lib out_ptr out_len w) \<and>
     rejected out_ptr out_len w
       (baml_call_function e lib runtime function_name encoded_args args_len call_id
          out_ptr out_len w) \<and>
     rejected out_ptr out_len w
       (baml_call_function_stream e lib runtime function_name encoded_args args_len call_id
          out_ptr out_len w) \<and>
     rejected out_ptr out_len w
       (baml_call_object_constructor e lib encoded_args args_len out_ptr out_len w) \<and>
     rejected out_ptr out_len w
       (baml_call_object_method e lib runtime encoded_args args_len out_ptr out_len w)"
  using assms
  by (simp add: version_null_output call_function_null_output call_function_stream_null_output
      call_object_constructor_null_output call_object_method_null_output)

theorem null_output_location_safe_witness:
  "usable (Addr 3) full_world \<and>
   baml_version stub_env (Addr 3) NULL (Addr 11) full_world =
     Inr (full_world\<lparr>len_cells := (len_cells full_world)(11 := 0)\<rparr>) \<and>
   baml_call_function stub_env (Addr 3) (Addr 30) (Addr 20) (Addr 21) 4 42 (Addr 10) NULL full_world =
     Inr (full_world\<lparr>ptr_cells := (ptr_cells full_world)(10 := NULL)\<rparr>) \<and>
   rejected NULL (Addr 11) full_world
     (baml_call_function_stream stub_env (Addr 3) (Addr 30) (Addr 20) (Addr 21) 4 42 NULL (Addr 11)
        full_world) \<and>
   rejected NULL NULL full_world
     (baml_call_object_constructor stub_env (Addr 3) (Addr 21) 4 NULL NULL full_world) \<and>
   rejected (Addr 10) NULL full_world
     (baml_call_object_method stub_env (Addr 3) (Addr 30) (Addr 21) 4 (Addr 10) NULL full_world)"
proof -
  have u: "usable (Addr 3) full_world"
    by (simp add: usable_def full_heap)
  have a: "baml_version stub_env (Addr 3) NULL (Addr 11) full_world =
     Inr (full_world\<lparr>len_cells := (len_cells full_world)(11 := 0)\<rparr>)"
    by (simp add: baml_version_def deref_def and_then_def full_heap full_table null_outputs_def
        store_len_def)
  have b: "baml_call_function stub_env (Addr 3) (Addr 30) (Addr 20) (Addr 21) 4 42 (Addr 10) NULL full_world =
     Inr (full_world\<lparr>ptr_cells := (ptr_cells full_world)(10 := NULL)\<rparr>)"
    by (simp add: baml_call_function_def deref_def and_then_def full_heap full_table
        null_outputs_def store_ptr_def)
  from u a b
    null_output_location_safe [where lib = "Addr 3" and w = full_world and e = stub_env
      and out_ptr = NULL and out_len = "Addr 11" and runtime = "Addr 30"
      and function_name = "Addr 20" and encoded_args = "Addr 21" and args_len = 4 and call_id = 42]
    null_output_location_safe [where lib = "Addr 3" and w = full_world and e = stub_env
      and out_ptr = NULL and out_len = NULL and encoded_args = "Addr 21" and args_len = 4]
    null_output_location_safe [where lib = "Addr 3" and w = full_world and e = stub_env
      and out_ptr = "Addr 10" and out_len = NULL and runtime = "Addr 30"
      and encoded_args = "Addr 21" and args_len = 4]
  show ?thesis by simp
qed

subsection \<open>Forwarding\<close>

lemma version_forwards:
  "heap w a = Some L \<Longrightarrow> version L = Addr f \<Longrightarrow>
   forwarded e f [] p q w (baml_version e (Addr a) (Addr p) (Addr q) w)"
  by (simp add: baml_version_def deref_def and_then_def invoke_buffer_def return_buffer_live
      forwarded_def)

lemma create_runtime_forwards:
  "heap w a = Some L \<Longrightarrow> create_runtime L = Addr f \<Longrightarrow>
   baml_create_runtime e (Addr a) root_path src_files_json env_vars_json w =
     Inr (pointer_of_call e (trace w) f
            [Pointer_arg root_path, Pointer_arg src_files_json, Pointer_arg env_vars_json],
          w\<lparr>trace := trace w @
            [Invoke f [Pointer_arg root_path, Pointer_arg src_files_json,
                       Pointer_arg env_vars_json]]\<rparr>)"
  by (simp add: baml_create_runtime_def deref_def and_then_def invoke_pointer_def)

lemma destroy_runtime_forwards:
  "heap w a = Some L \<Longrightarrow> destroy_runtime L = Addr f \<Longrightarrow> runtime \<noteq> NULL \<Longrightarrow>
   baml_destroy_runtime e (Addr a) runtime w =
     Inr (w\<lparr>trace := trace w @ [Invoke f [Pointer_arg runtime]]\<rparr>)"
  by (simp add: baml_destroy_runtime_def deref_def and_then_def invoke_void_def)

lemma call_function_forwards:
  "heap w a = Some L \<Longrightarrow> call_function L = Addr f \<Longrightarrow> runtime \<noteq> NULL \<Longrightarrow>
   forwarded e f
     [Pointer_arg runtime, Pointer_arg function_name, Pointer_arg encoded_args,
      Size_arg args_len, Uint32_arg call_id] p q w
     (baml_call_function e (Addr a) runtime function_name encoded_args args_len call_id
        (Addr p) (Addr q) w)"
  by (simp add: baml_call_function_def deref_def and_then_def invoke_buffer_def return_buffer_live
      forwarded_def)

lemma call_function_stream_forwards:
  "heap w a = Some L \<Longrightarrow> call_function_stream L = Addr f \<Longrightarrow> runtime \<noteq> NULL \<Longrightarrow>
   forwarded e f
     [Pointer_arg runtime, Pointer_arg function_name, Pointer_arg encoded_args,
      Size_arg args_len, Uint32_arg call_id] p q w
     (baml_call_function_stream e (Addr a) runtime function_name encoded_args args_len call_id
        (Addr p) (Addr q) w)"
  by (simp add: baml_call_function_stream_def deref_def and_then_def invoke_buffer_def
      return_buffer_live forwarded_def)

lemma call_object_constructor_forwards:
  "heap w a = Some L \<Longrightarrow> call_object_constructor L = Addr f \<Longrightarrow>
   forwarded e f [Pointer_arg encoded_args, Size_arg args_len] p q w
     (baml_call_object_constructor e (Addr a) encoded_args args_len (Addr p) (Addr q) w)"
  by (simp add: baml_call_object_constructor_def deref_def and_then_def invoke_buffer_def
      return_buffer_live forwarded_def)

lemma call_object_method_forwards:
  "heap w a = Some L \<Longrightarrow> call_object_method L = Addr f \<Longrightarrow> runtime \<noteq> NULL \<Longrightarrow>
   forwarded e f [Pointer_arg runtime, Pointer_arg encoded_args, Size_arg args_len] p q w
     (baml_call_object_method e (Addr a) runtime encoded_args args_len (Addr p) (Addr q) w)"
  by (simp add: baml_call_object_method_def deref_def and_then_def invoke_buffer_def
      return_buffer_live forwarded_def)

text \<open>
  C3. On a live library handle, when the validation of an operation passes (its
  function pointer is resolved to \<open>f\<close>, the runtime is not null where one is
  required, both output locations are given), the operation adds exactly one
  event, the call of \<open>f\<close> on the caller's arguments as they were passed, and the
  output cells receive the pointer and the length of the buffer that call
  returned; \<open>baml_create_runtime\<close> returns the pointer the call returned, and
  \<open>baml_destroy_runtime\<close> only makes the call. Nothing else changes.
\<close>

theorem dispatcher_forwards_verbatim:
  assumes "heap w a = Some L"
  shows
    "(version L = Addr f \<longrightarrow>
        forwarded e f [] p q w (baml_version e (Addr a) (Addr p) (Addr q) w)) \<and>
     (create_runtime L = Addr f \<longrightarrow>
        baml_create_runtime e (Addr a) root_path src_files_json env_vars_json w =
          Inr (pointer_of_call e (trace w) f
                 [Pointer_arg root_path, Pointer_arg src_files_json, Pointer_arg env_vars_json],
               w\<lparr>trace := trace w @
                 [Invoke f [Pointer_arg root_path, Pointer_arg src_files_json,
                            Pointer_arg env_vars_json]]\<rparr>)) \<and>
     (destroy_runtime L = Addr f \<and> runtime \<noteq> NULL \<longrightarrow>
        baml_destroy_runtime e (Addr a) runtime w =
          Inr (w\<lparr>trace := trace w @ [Invoke f [Pointer_arg runtime]]\<rparr>)) \<and>
     (call_function L = Addr f \<and> runtime \<noteq> NULL \<longrightarrow>
        forwarded e f
          [Pointer_arg runtime, Pointer_arg function_name, Pointer_arg encoded_args,
           Size_arg args_len, Uint32_arg call_id] p q w
          (baml_call_function e (Addr a) runtime function_name encoded_args args_len call_id
             (Addr p) (Addr q) w)) \<and>
     (call_function_stream L = Addr f \<and> runtime \<noteq> NULL \<longrightarrow>
        forwarded e f
          [Pointer_arg runtime, Pointer_arg function_name, Pointer_arg encoded_args,
           Size_arg args_len, Uint32_arg call_id] p q w
          (baml_call_function_stream e (Addr a) runtime function_name encoded_args args_len
             call_id (Addr p) (Addr q) w)) \<and>
     (call_object_constructor L = Addr f \<longrightarrow>
        forwarded e f [Pointer_arg encoded_args, Size_arg args_len] p q w
          (baml_call_object_constructor e (Addr a) encoded_args args_len (Addr p) (Addr q) w)) \<and>
     (call_object_method L = Addr f \<and> runtime \<noteq> NULL \<longrightarrow>
        forwarded e f [Pointer_arg runtime, Pointer_arg encoded_args, Size_arg args_len] p q w
          (baml_call_object_method e (Addr a) runtime encoded_args args_len (Addr p) (Addr q) w))"
  using assms
  by (simp add: version_forwards create_runtime_forwards destroy_runtime_forwards
      call_function_forwards call_function_stream_forwards call_object_constructor_forwards
      call_object_method_forwards)

lemma stub_calls:
  "buffer_of_call stub_env t f args = \<lparr>ptr = Addr (500 + f), len = of_nat (length args)\<rparr>"
  "pointer_of_call stub_env t f args = Addr (900 + f)"
  by (simp_all add: stub_env_def)

theorem dispatcher_forwards_verbatim_witness:
  "heap full_world 3 = Some (resolved stub_env (Addr 8)) \<and>
   baml_version stub_env (Addr 3) (Addr 10) (Addr 11) full_world =
     Inr (full_world\<lparr>ptr_cells := (ptr_cells full_world)(10 := Addr 708),
                      len_cells := (len_cells full_world)(11 := 0),
                      trace := trace full_world @ [Invoke 208 []]\<rparr>) \<and>
   forwarded stub_env 208 [] 10 11 full_world
     (baml_version stub_env (Addr 3) (Addr 10) (Addr 11) full_world) \<and>
   baml_create_runtime stub_env (Addr 3) (Addr 31) (Addr 32) (Addr 33) full_world =
     Inr (Addr 1101,
          full_world\<lparr>trace := trace full_world @
            [Invoke 201 [Pointer_arg (Addr 31), Pointer_arg (Addr 32), Pointer_arg (Addr 33)]]\<rparr>) \<and>
   baml_destroy_runtime stub_env (Addr 3) (Addr 30) full_world =
     Inr (full_world\<lparr>trace := trace full_world @ [Invoke 202 [Pointer_arg (Addr 30)]]\<rparr>) \<and>
   forwarded stub_env 203
     [Pointer_arg (Addr 30), Pointer_arg (Addr 20), Pointer_arg (Addr 21), Size_arg 4, Uint32_arg 42]
     10 11 full_world
     (baml_call_function stub_env (Addr 3) (Addr 30) (Addr 20) (Addr 21) 4 42 (Addr 10) (Addr 11)
        full_world) \<and>
   forwarded stub_env 204
     [Pointer_arg (Addr 30), Pointer_arg (Addr 20), Pointer_arg (Addr 21), Size_arg 4, Uint32_arg 42]
     10 11 full_world
     (baml_call_function_stream stub_env (Addr 3) (Addr 30) (Addr 20) (Addr 21) 4 42 (Addr 10)
        (Addr 11) full_world) \<and>
   forwarded stub_env 205 [Pointer_arg (Addr 21), Size_arg 4] 10 11 full_world
     (baml_call_object_constructor stub_env (Addr 3) (Addr 21) 4 (Addr 10) (Addr 11) full_world) \<and>
   forwarded stub_env 206 [Pointer_arg (Addr 30), Pointer_arg (Addr 21), Size_arg 4] 10 11 full_world
     (baml_call_object_method stub_env (Addr 3) (Addr 30) (Addr 21) 4 (Addr 10) (Addr 11)
        full_world)"
proof -
  have v: "baml_version stub_env (Addr 3) (Addr 10) (Addr 11) full_world =
     Inr (full_world\<lparr>ptr_cells := (ptr_cells full_world)(10 := Addr 708),
                      len_cells := (len_cells full_world)(11 := 0),
                      trace := trace full_world @ [Invoke 208 []]\<rparr>)"
    by (simp add: baml_version_def deref_def and_then_def full_heap full_table
        invoke_buffer_def return_buffer_live stub_calls)
  have c: "pointer_of_call stub_env (trace full_world) 201
             [Pointer_arg (Addr 31), Pointer_arg (Addr 32), Pointer_arg (Addr 33)] = Addr 1101"
    by (simp add: stub_calls)
  have n: "Addr 30 \<noteq> NULL" by simp
  note T = dispatcher_forwards_verbatim [OF full_heap, where e = stub_env and p = 10 and q = 11
      and runtime = "Addr 30" and function_name = "Addr 20" and encoded_args = "Addr 21"
      and args_len = 4 and call_id = 42 and root_path = "Addr 31" and src_files_json = "Addr 32"
      and env_vars_json = "Addr 33"]
  from v c n full_heap full_table
    T [where f = 208] T [where f = 201] T [where f = 202] T [where f = 203]
    T [where f = 204] T [where f = 205] T [where f = 206]
  show ?thesis by simp
qed

subsection \<open>Buffer release\<close>

lemma stub_heap: "heap stub_world 3 = Some (resolved stub_env (Addr 7))"
  by (simp add: stub_world_def)

lemma stub_table:
  "create_runtime (resolved stub_env (Addr 7)) = Addr 100"
  "destroy_runtime (resolved stub_env (Addr 7)) = NULL"
  "call_function (resolved stub_env (Addr 7)) = Addr 101"
  "call_function_stream (resolved stub_env (Addr 7)) = NULL"
  "call_object_constructor (resolved stub_env (Addr 7)) = NULL"
  "call_object_method (resolved stub_env (Addr 7)) = NULL"
  "free_buffer (resolved stub_env (Addr 7)) = NULL"
  "version (resolved stub_env (Addr 7)) = NULL"
  "register_callbacks (resolved stub_env (Addr 7)) = NULL"
  by (simp_all add: resolved_def stub_env_def)

lemma free_buffer_skips:
  "absent free_buffer lib w \<or> usable lib w \<and> p = NULL \<Longrightarrow> baml_free_buffer e lib p n w = Inr w"
  by (auto dest!: absent_cases usable_cases simp: baml_free_buffer_def deref_def and_then_def
      split: pointer.splits)

lemma free_buffer_forwards:
  "heap w a = Some L \<Longrightarrow> free_buffer L = Addr f \<Longrightarrow> p \<noteq> NULL \<Longrightarrow>
   baml_free_buffer e (Addr a) p n w =
     Inr (w\<lparr>trace := trace w @ [Invoke f [Pointer_arg p, Size_arg n]]\<rparr>)"
  by (simp add: baml_free_buffer_def deref_def and_then_def invoke_void_def)

text \<open>
  C5, as the code has it. \<open>baml_free_buffer\<close> does nothing when the library handle
  is null, when the deallocation symbol was not resolved, or when the buffer
  pointer is null; on a live handle with the symbol resolved to \<open>f\<close> and a buffer
  pointer that is not null it makes exactly one call, of \<open>f\<close> on the pointer and
  the length.
\<close>

theorem free_buffer_guarded:
  "(absent free_buffer lib w \<or> usable lib w \<and> p = NULL \<longrightarrow>
      baml_free_buffer e lib p n w = Inr w) \<and>
   (heap w a = Some L \<and> free_buffer L = Addr f \<and> p \<noteq> NULL \<longrightarrow>
      baml_free_buffer e (Addr a) p n w =
        Inr (w\<lparr>trace := trace w @ [Invoke f [Pointer_arg p, Size_arg n]]\<rparr>))"
  by (simp add: free_buffer_skips free_buffer_forwards)

theorem free_buffer_guarded_witness:
  "usable (Addr 3) full_world \<and>
   baml_free_buffer stub_env (Addr 3) NULL 5 full_world = Inr full_world \<and>
   absent free_buffer (Addr 3) stub_world \<and>
   baml_free_buffer stub_env (Addr 3) (Addr 708) 5 stub_world = Inr stub_world \<and>
   free_buffer (resolved stub_env (Addr 8)) = Addr 207 \<and>
   baml_free_buffer stub_env (Addr 3) (Addr 708) 5 full_world =
     Inr (full_world\<lparr>trace := trace full_world @
            [Invoke 207 [Pointer_arg (Addr 708), Size_arg 5]]\<rparr>)"
proof -
  have u: "usable (Addr 3) full_world"
    by (simp add: usable_def full_heap)
  have ab: "absent free_buffer (Addr 3) stub_world"
    by (simp add: absent_def stub_heap stub_table)
  have n: "Addr 708 \<noteq> NULL" by simp
  from u ab n full_heap full_table(7)
    free_buffer_guarded [where lib = "Addr 3" and w = full_world and p = NULL and e = stub_env
      and n = 5]
    free_buffer_guarded [where lib = "Addr 3" and w = stub_world and p = "Addr 708"
      and e = stub_env and n = 5]
    free_buffer_guarded [where a = 3 and w = full_world and p = "Addr 708" and e = stub_env
      and n = 5 and f = 207 and L = "resolved stub_env (Addr 8)"]
  show ?thesis by simp
qed

text \<open>
  The claim as the spec words it ("no-op if the pointer is null; otherwise
  forwards") fails where the handle is null or the library has no \<open>free_buffer\<close>:
  with a buffer pointer that is not null, the state stays as it was, so nothing
  is invoked.
\<close>

theorem free_buffer_not_forwarded:
  "Addr 708 \<noteq> NULL \<and>
   baml_free_buffer stub_env NULL (Addr 708) 5 world0 = Inr world0 \<and>
   baml_free_buffer stub_env (Addr 3) (Addr 708) 5 stub_world = Inr stub_world"
  by (simp add: baml_free_buffer_def deref_def and_then_def stub_heap stub_table)

subsection \<open>The outcomes of \<open>baml_library_load\<close>\<close>

lemma load_null_path_aux: "baml_library_load e None w = Inr (NULL, w)"
  by (simp add: baml_library_load_def)

text \<open>Every outcome of \<open>baml_library_load\<close> on a path, by cases.\<close>

lemma load_cases:
  obtains
    (no_open) "dlopen_os e p = NULL"
      "baml_library_load e (Some p) w = Inr (NULL, w\<lparr>trace := trace w @ [Dlopen p]\<rparr>)"
  | (no_memory) h where "dlopen_os e p = Addr h" "free_blocks w = []"
      "baml_library_load e (Some p) w =
         Inr (NULL, w\<lparr>trace := trace w @ [Dlopen p, Calloc NULL, Dlclose h]\<rparr>)"
  | (no_symbols) h a rest where "dlopen_os e p = Addr h" "free_blocks w = a # rest"
      "\<not> mandatory e (Addr h)"
      "baml_library_load e (Some p) w =
         Inr (NULL, w\<lparr>heap := (heap w)(a := None),
                      trace := trace w @ [Dlopen p, Calloc (Addr a)] @
                        map (Dlsym (Addr h)) symbol_names @ [Dlclose h, Free a]\<rparr>)"
  | (loaded) h a rest where "dlopen_os e p = Addr h" "free_blocks w = a # rest"
      "mandatory e (Addr h)"
      "baml_library_load e (Some p) w =
         Inr (Addr a, w\<lparr>opened := h # opened w,
                      heap := (heap w)(a \<mapsto> resolved e (Addr h)),
                      free_blocks := rest,
                      trace := trace w @ [Dlopen p, Calloc (Addr a)] @
                        map (Dlsym (Addr h)) symbol_names\<rparr>)"
proof (cases "dlopen_os e p")
  case NULL
  then show ?thesis using no_open load_open_fails by blast
next
  case (Addr h)
  show ?thesis
  proof (cases "free_blocks w")
    case Nil
    with Addr show ?thesis using no_memory load_alloc_fails by blast
  next
    case (Cons a rest)
    show ?thesis
    proof (cases "mandatory e (Addr h)")
      case True
      with Addr Cons show ?thesis using loaded load_succeeds by blast
    next
      case False
      with Addr Cons show ?thesis using no_symbols load_symbols_missing by blast
    qed
  qed
qed

lemma load_returns_live:
  assumes "baml_library_load e path w = Inr (Addr a, w')"
  obtains p h rest where "path = Some p" "dlopen_os e p = Addr h" "free_blocks w = a # rest"
    "mandatory e (Addr h)"
    "w' = w\<lparr>opened := h # opened w,
            heap := (heap w)(a \<mapsto> resolved e (Addr h)),
            free_blocks := rest,
            trace := trace w @ [Dlopen p, Calloc (Addr a)] @ map (Dlsym (Addr h)) symbol_names\<rparr>"
proof (cases path)
  case None
  with assms show ?thesis by (simp add: load_null_path_aux)
next
  case (Some p)
  show ?thesis
    using assms that Some
    by (cases rule: load_cases [of e p w]) auto
qed

subsection \<open>Callback registry\<close>

lemma register_callbacks_skips:
  "absent register_callbacks lib w \<Longrightarrow>
   baml_register_callbacks e lib result_cb error_cb tick_cb w = Inr w"
  by (auto dest!: absent_cases simp: baml_register_callbacks_def deref_def and_then_def)

lemma register_callbacks_forwards:
  "heap w a = Some L \<Longrightarrow> register_callbacks L = Addr f \<Longrightarrow>
   baml_register_callbacks e (Addr a) result_cb error_cb tick_cb w =
     Inr (w\<lparr>trace := trace w @
            [Invoke f [Pointer_arg result_cb, Pointer_arg error_cb, Pointer_arg tick_cb]]\<rparr>)"
  by (simp add: baml_register_callbacks_def deref_def and_then_def invoke_void_def)

lemma register_callbacks_after_minimal_load:
  assumes load: "baml_library_load e (Some p) u = Inr (Addr b, u')"
    and minimal: "\<forall>h name. dlopen_os e p = Addr h \<and>
        name \<notin> {''create_baml_runtime'', ''call_function_from_c''} \<longrightarrow>
        dlsym_os e (Addr h) name = NULL"
  shows "baml_register_callbacks e (Addr b) result_cb error_cb tick_cb u' = Inr u'"
proof -
  from load obtain h rest where h: "dlopen_os e p = Addr h"
    and u': "u' = u\<lparr>opened := h # opened u,
            heap := (heap u)(b \<mapsto> resolved e (Addr h)),
            free_blocks := rest,
            trace := trace u @ [Dlopen p, Calloc (Addr b)] @ map (Dlsym (Addr h)) symbol_names\<rparr>"
    by (auto elim: load_returns_live)
  from minimal h have "dlsym_os e (Addr h) ''register_callbacks'' = NULL"
    by simp
  then have "absent register_callbacks (Addr b) u'"
    by (simp add: absent_def u' resolved_def)
  then show ?thesis by (rule register_callbacks_skips)
qed

text \<open>
  C7. \<open>baml_register_callbacks\<close> changes nothing and invokes nothing when the
  library handle is null or the registration symbol was not resolved; on a live
  handle whose registration symbol is resolved to \<open>f\<close> it makes exactly one call,
  of \<open>f\<close> on the three callback pointers in the order result, error, tick. In
  particular, on the handle \<open>baml_library_load\<close> returns for a library that
  exports only the two mandatory symbols, registration changes nothing.
\<close>

theorem register_callbacks_forwards_or_skips:
  "(absent register_callbacks lib w \<longrightarrow>
      baml_register_callbacks e lib result_cb error_cb tick_cb w = Inr w) \<and>
   (heap w a = Some L \<and> register_callbacks L = Addr f \<longrightarrow>
      baml_register_callbacks e (Addr a) result_cb error_cb tick_cb w =
        Inr (w\<lparr>trace := trace w @
               [Invoke f [Pointer_arg result_cb, Pointer_arg error_cb, Pointer_arg tick_cb]]\<rparr>)) \<and>
   (baml_library_load e (Some p) u = Inr (Addr b, u') \<and>
    (\<forall>h name. dlopen_os e p = Addr h \<and>
        name \<notin> {''create_baml_runtime'', ''call_function_from_c''} \<longrightarrow>
        dlsym_os e (Addr h) name = NULL) \<longrightarrow>
      baml_register_callbacks e (Addr b) result_cb error_cb tick_cb u' = Inr u')"
proof (intro conjI impI)
  assume "absent register_callbacks lib w"
  then show "baml_register_callbacks e lib result_cb error_cb tick_cb w = Inr w"
    by (rule register_callbacks_skips)
next
  assume "heap w a = Some L \<and> register_callbacks L = Addr f"
  then show "baml_register_callbacks e (Addr a) result_cb error_cb tick_cb w =
        Inr (w\<lparr>trace := trace w @
               [Invoke f [Pointer_arg result_cb, Pointer_arg error_cb, Pointer_arg tick_cb]]\<rparr>)"
    by (simp add: register_callbacks_forwards)
next
  assume "baml_library_load e (Some p) u = Inr (Addr b, u') \<and>
    (\<forall>h name. dlopen_os e p = Addr h \<and>
        name \<notin> {''create_baml_runtime'', ''call_function_from_c''} \<longrightarrow>
        dlsym_os e (Addr h) name = NULL)"
  then show "baml_register_callbacks e (Addr b) result_cb error_cb tick_cb u' = Inr u'"
    using register_callbacks_after_minimal_load [of e p u b u'] by (elim conjE) simp
qed

theorem register_callbacks_forwards_or_skips_witness:
  "absent register_callbacks NULL world0 \<and>
   baml_register_callbacks stub_env NULL (Addr 61) (Addr 62) (Addr 63) world0 = Inr world0 \<and>
   register_callbacks (resolved stub_env (Addr 8)) = Addr 209 \<and>
   baml_register_callbacks stub_env (Addr 3) (Addr 61) (Addr 62) (Addr 63) full_world =
     Inr (full_world\<lparr>trace := trace full_world @
            [Invoke 209 [Pointer_arg (Addr 61), Pointer_arg (Addr 62), Pointer_arg (Addr 63)]]\<rparr>) \<and>
   baml_library_load stub_env (Some ''./libbaml_ffi.so'') world0 = Inr (Addr 3, stub_world) \<and>
   baml_register_callbacks stub_env (Addr 3) (Addr 61) (Addr 62) (Addr 63) stub_world =
     Inr stub_world"
proof -
  have ab: "absent register_callbacks NULL world0"
    by (simp add: absent_def)
  have minimal: "\<forall>h name. dlopen_os stub_env ''./libbaml_ffi.so'' = Addr h \<and>
        name \<notin> {''create_baml_runtime'', ''call_function_from_c''} \<longrightarrow>
        dlsym_os stub_env (Addr h) name = NULL"
    by (simp add: stub_env_def)
  from ab minimal load_stub full_heap full_table(9)
    register_callbacks_forwards_or_skips [where lib = NULL and w = world0 and e = stub_env
      and result_cb = "Addr 61" and error_cb = "Addr 62" and tick_cb = "Addr 63"]
    register_callbacks_forwards_or_skips [where a = 3 and w = full_world and e = stub_env
      and L = "resolved stub_env (Addr 8)" and f = 209
      and result_cb = "Addr 61" and error_cb = "Addr 62" and tick_cb = "Addr 63"]
    register_callbacks_forwards_or_skips [where e = stub_env and p = "''./libbaml_ffi.so''"
      and u = world0 and b = 3 and u' = stub_world
      and result_cb = "Addr 61" and error_cb = "Addr 62" and tick_cb = "Addr 63"]
  show ?thesis by simp
qed

subsection \<open>Probing the default locations\<close>

lemma dlopens_append: "dlopens (xs @ ys) = dlopens xs @ dlopens ys"
  by (induction xs rule: dlopens.induct) simp_all

lemma dlopens_dlsyms: "dlopens (map (Dlsym h) names) = []"
  by (induction names) simp_all

lemma alike_refl: "alike w w"
  by (simp add: alike_def)

text \<open>
  \<open>baml_library_load\<close> does not depend on the record of events, nor on what the
  heap holds at the block \<open>calloc\<close> hands out next.
\<close>

lemma load_alike_fails:
  assumes "alike v w" and "baml_library_load e (Some p) w = Inr (NULL, w')"
  shows "\<exists>v'. baml_library_load e (Some p) v = Inr (NULL, v') \<and> alike v' w \<and>
           dlopens (trace v') = dlopens (trace v) @ [p]"
proof (cases rule: load_cases [of e p v])
  case no_open
  with assms(1) show ?thesis
    by (simp add: alike_def dlopens_append)
next
  case (no_memory h)
  with assms(1) show ?thesis
    by (simp add: alike_def dlopens_append)
next
  case (no_symbols h a rest)
  from assms(1) no_symbols(2) have "free_blocks w = a # rest"
    by (simp add: alike_def)
  with assms(1) no_symbols(4) show ?thesis
    by (auto simp: alike_def dlopens_append dlopens_dlsyms)
next
  case (loaded h a rest)
  from assms(1) loaded(2) have "free_blocks w = a # rest"
    by (simp add: alike_def)
  with loaded(1,3) have "baml_library_load e (Some p) w \<noteq> Inr (NULL, w')"
    by (simp add: load_succeeds)
  with assms(2) show ?thesis by simp
qed

lemma load_alike_succeeds:
  assumes "alike v w" and "baml_library_load e (Some p) w = Inr (Addr a, w')"
  shows "\<exists>v'. baml_library_load e (Some p) v = Inr (Addr a, v') \<and> same_resources v' w' \<and>
           dlopens (trace v') = dlopens (trace v) @ [p]"
proof -
  from assms(2) obtain h rest where h: "dlopen_os e p = Addr h"
    and fb: "free_blocks w = a # rest" and m: "mandatory e (Addr h)"
    and w': "w' = w\<lparr>opened := h # opened w,
            heap := (heap w)(a \<mapsto> resolved e (Addr h)),
            free_blocks := rest,
            trace := trace w @ [Dlopen p, Calloc (Addr a)] @ map (Dlsym (Addr h)) symbol_names\<rparr>"
    by (auto elim: load_returns_live)
  from assms(1) fb have fbv: "free_blocks v = a # rest"
    by (simp add: alike_def)
  from assms(1) fb have "(heap v)(a \<mapsto> resolved e (Addr h)) = (heap w)(a \<mapsto> resolved e (Addr h))"
    by (auto simp: alike_def)
  with assms(1) show ?thesis
    by (simp add: load_succeeds [OF h fbv m] w' same_resources_def alike_def dlopens_append
        dlopens_dlsyms)
qed

lemma probe_all_fail:
  assumes "\<forall>p \<in> set cs. \<exists>w'. baml_library_load e (Some p) w = Inr (NULL, w')"
    and "alike v w"
  shows "\<exists>v'. probe e (map Some cs @ None # tail) v = Inr (NULL, v') \<and> alike v' w \<and>
           dlopens (trace v') = dlopens (trace v) @ cs"
  using assms
proof (induction cs arbitrary: v)
  case Nil
  then show ?case by simp
next
  case (Cons c cs)
  from Cons.prems obtain w' where "baml_library_load e (Some c) w = Inr (NULL, w')"
    by auto
  with Cons.prems(2) obtain v1 where v1: "baml_library_load e (Some c) v = Inr (NULL, v1)"
    "alike v1 w" "dlopens (trace v1) = dlopens (trace v) @ [c]"
    using load_alike_fails by blast
  from Cons.prems(1) have "\<forall>p \<in> set cs. \<exists>w'. baml_library_load e (Some p) w = Inr (NULL, w')"
    by simp
  from Cons.IH [OF this v1(2)] v1(1,3) show ?case
    by (auto simp: and_then_def)
qed

lemma probe_first_success:
  assumes "\<forall>q \<in> set fs. \<exists>w'. baml_library_load e (Some q) w = Inr (NULL, w')"
    and "baml_library_load e (Some p) w = Inr (Addr a, w1)"
    and "alike v w"
  shows "\<exists>v'. probe e (map Some fs @ Some p # tail) v = Inr (Addr a, v') \<and>
           same_resources v' w1 \<and> dlopens (trace v') = dlopens (trace v) @ fs @ [p]"
  using assms
proof (induction fs arbitrary: v)
  case Nil
  then show ?case
    using load_alike_succeeds [of v w e p a w1] by (auto simp: and_then_def)
next
  case (Cons c fs)
  from Cons.prems obtain w' where "baml_library_load e (Some c) w = Inr (NULL, w')"
    by auto
  with Cons.prems(3) obtain v1 where v1: "baml_library_load e (Some c) v = Inr (NULL, v1)"
    "alike v1 w" "dlopens (trace v1) = dlopens (trace v) @ [c]"
    using load_alike_fails by blast
  from Cons.prems(1) have "\<forall>q \<in> set fs. \<exists>w'. baml_library_load e (Some q) w = Inr (NULL, w')"
    by simp
  from Cons.IH [OF this Cons.prems(2) v1(2)] v1(1,3) show ?case
    by (auto simp: and_then_def)
qed

lemma paths_terminated: "paths plat = map Some (candidates (paths plat)) @ [None]"
  by (cases plat) (simp_all add: paths_def)

lemma load_total: "\<exists>lib w'. baml_library_load e path w = Inr (lib, w')"
proof (cases path)
  case None
  then show ?thesis by (simp add: load_null_path_aux)
next
  case (Some p)
  then show ?thesis by (cases rule: load_cases [of e p w]) simp_all
qed

lemma load_default_all_fail:
  assumes "\<forall>p \<in> set (candidates (paths plat)). \<exists>w1. baml_library_load e (Some p) w = Inr (NULL, w1)"
  shows "\<exists>w'. baml_library_load_default e plat w = Inr (NULL, w') \<and> alike w' w \<and>
           dlopens (trace w') = dlopens (trace w) @ candidates (paths plat)"
proof -
  have "baml_library_load_default e plat w = probe e (map Some (candidates (paths plat)) @ None # []) w"
    using paths_terminated [of plat] by (simp add: baml_library_load_default_def)
  with probe_all_fail [OF assms alike_refl, of "[]"] show ?thesis by simp
qed

lemma load_default_first:
  assumes "candidates (paths plat) = fs @ p # rest"
    and "\<forall>q \<in> set fs. \<exists>w1. baml_library_load e (Some q) w = Inr (NULL, w1)"
    and "baml_library_load e (Some p) w = Inr (Addr a, w1)"
  shows "\<exists>w'. baml_library_load_default e plat w = Inr (Addr a, w') \<and> same_resources w' w1 \<and>
           dlopens (trace w') = dlopens (trace w) @ fs @ [p]"
proof -
  have "paths plat = map Some fs @ Some p # (map Some rest @ [None])"
    using paths_terminated [of plat] assms(1) by simp
  then have "baml_library_load_default e plat w = probe e (map Some fs @ Some p # (map Some rest @ [None])) w"
    by (simp add: baml_library_load_default_def)
  with probe_first_success [OF assms(2,3) alike_refl] show ?thesis by simp
qed

text \<open>Either every candidate fails, or there is a first one that loads.\<close>

lemma first_loadable:
  obtains
    (none) "\<forall>p \<in> set cs. \<exists>w1. baml_library_load e (Some p) w = Inr (NULL, w1)"
  | (first) fs p rest a w1 where "cs = fs @ p # rest"
      "\<forall>q \<in> set fs. \<exists>w1. baml_library_load e (Some q) w = Inr (NULL, w1)"
      "baml_library_load e (Some p) w = Inr (Addr a, w1)"
proof (cases "\<exists>p \<in> set cs. \<not> (\<exists>w1. baml_library_load e (Some p) w = Inr (NULL, w1))")
  case False
  then show ?thesis using none by blast
next
  case True
  then obtain fs p rest where split: "cs = fs @ p # rest"
    and p: "\<not> (\<exists>w1. baml_library_load e (Some p) w = Inr (NULL, w1))"
    and fs: "\<forall>q \<in> set fs. \<not> \<not> (\<exists>w1. baml_library_load e (Some q) w = Inr (NULL, w1))"
    using split_list_first_prop [of cs "\<lambda>p. \<not> (\<exists>w1. baml_library_load e (Some p) w = Inr (NULL, w1))"]
    by blast
  from load_total [of e "Some p" w] obtain lib w1
    where l: "baml_library_load e (Some p) w = Inr (lib, w1)" by blast
  with p obtain a where "lib = Addr a" by (cases lib) auto
  with l fs split show ?thesis using first by blast
qed

lemma load_default_live:
  assumes "baml_library_load_default e plat w = Inr (Addr a, w')"
  shows "\<exists>p w1. baml_library_load e (Some p) w = Inr (Addr a, w1) \<and> same_resources w' w1"
proof (cases rule: first_loadable [of "candidates (paths plat)" e w])
  case none
  from load_default_all_fail [OF this] assms show ?thesis by auto
next
  case (first fs p rest b w1)
  from load_default_first [OF first] assms show ?thesis
    using first(3) by auto
qed

text \<open>
  C4. \<open>baml_library_load_default\<close> always returns. If \<open>baml_library_load\<close> fails
  on every candidate of the platform's array, it returns null, having given the
  candidates to \<open>dlopen\<close> one after the other in the listed order, and holds no
  new resource. If \<open>p\<close> is the first candidate on which \<open>baml_library_load\<close>
  succeeds, it returns the very pointer \<open>baml_library_load\<close> returns on \<open>p\<close>, in
  a state with the same open references, heap, allocator and cells, and \<open>dlopen\<close>
  was given exactly the candidates up to and including \<open>p\<close>, in order. And it
  returns null only if \<open>baml_library_load\<close> fails on every candidate.
\<close>

theorem load_default_first_success:
  "((\<forall>p \<in> set (candidates (paths plat)). \<exists>w1. baml_library_load e (Some p) w = Inr (NULL, w1)) \<longrightarrow>
      (\<exists>w'. baml_library_load_default e plat w = Inr (NULL, w') \<and> alike w' w \<and>
         dlopens (trace w') = dlopens (trace w) @ candidates (paths plat))) \<and>
   (candidates (paths plat) = fs @ p # rest \<and>
    (\<forall>q \<in> set fs. \<exists>w1. baml_library_load e (Some q) w = Inr (NULL, w1)) \<and>
    baml_library_load e (Some p) w = Inr (Addr a, u) \<longrightarrow>
      (\<exists>w'. baml_library_load_default e plat w = Inr (Addr a, w') \<and> same_resources w' u \<and>
         dlopens (trace w') = dlopens (trace w) @ fs @ [p])) \<and>
   (baml_library_load_default e plat w = Inr (NULL, v) \<longrightarrow>
      (\<forall>p \<in> set (candidates (paths plat)). \<exists>w1. baml_library_load e (Some p) w = Inr (NULL, w1))) \<and>
   (\<exists>lib w'. baml_library_load_default e plat w = Inr (lib, w'))"
proof (intro conjI impI)
  assume "\<forall>p \<in> set (candidates (paths plat)). \<exists>w1. baml_library_load e (Some p) w = Inr (NULL, w1)"
  then show "\<exists>w'. baml_library_load_default e plat w = Inr (NULL, w') \<and> alike w' w \<and>
         dlopens (trace w') = dlopens (trace w) @ candidates (paths plat)"
    by (rule load_default_all_fail)
next
  assume "candidates (paths plat) = fs @ p # rest \<and>
    (\<forall>q \<in> set fs. \<exists>w1. baml_library_load e (Some q) w = Inr (NULL, w1)) \<and>
    baml_library_load e (Some p) w = Inr (Addr a, u)"
  then show "\<exists>w'. baml_library_load_default e plat w = Inr (Addr a, w') \<and> same_resources w' u \<and>
         dlopens (trace w') = dlopens (trace w) @ fs @ [p]"
    using load_default_first [of plat fs p rest e w a u] by blast
next
  assume null: "baml_library_load_default e plat w = Inr (NULL, v)"
  show "\<forall>p \<in> set (candidates (paths plat)). \<exists>w1. baml_library_load e (Some p) w = Inr (NULL, w1)"
  proof (cases rule: first_loadable [of "candidates (paths plat)" e w])
    case none
    then show ?thesis .
  next
    case (first fs p rest b w1)
    from load_default_first [OF first] null show ?thesis by auto
  qed
next
  show "\<exists>lib w'. baml_library_load_default e plat w = Inr (lib, w')"
  proof (cases rule: first_loadable [of "candidates (paths plat)" e w])
    case none
    from load_default_all_fail [OF this] show ?thesis by blast
  next
    case (first fs p rest b w1)
    from load_default_first [OF first] show ?thesis by blast
  qed
qed

lemma linux_candidates:
  "candidates (paths Linux) =
     [''libbaml_ffi.so''] @ ''./libbaml_ffi.so'' #
     [''./lib/libbaml_ffi.so'', ''/usr/local/lib/libbaml_ffi.so'', ''/usr/lib/libbaml_ffi.so'']"
  by (simp add: paths_def)

lemma apple_candidates:
  "candidates (paths Apple) =
     [''libbaml_ffi.dylib'', ''./libbaml_ffi.dylib'', ''./lib/libbaml_ffi.dylib'',
      ''/usr/local/lib/libbaml_ffi.dylib'', ''BamlFFI.framework/BamlFFI'']"
  by (simp add: paths_def)

lemma stub_no_dylib:
  "\<forall>p \<in> set (candidates (paths Apple)). \<exists>w1. baml_library_load stub_env (Some p) world0 = Inr (NULL, w1)"
  by (simp add: apple_candidates load_open_fails stub_env_def)

lemma stub_bare_name_fails:
  "\<forall>q \<in> set [''libbaml_ffi.so'']. \<exists>w1. baml_library_load stub_env (Some q) world0 = Inr (NULL, w1)"
  by (simp add: load_open_fails stub_env_def)

theorem load_default_first_success_witness:
  "(\<exists>w'. baml_library_load_default stub_env Apple world0 = Inr (NULL, w') \<and> alike w' world0 \<and>
      dlopens (trace w') =
        [''libbaml_ffi.dylib'', ''./libbaml_ffi.dylib'', ''./lib/libbaml_ffi.dylib'',
         ''/usr/local/lib/libbaml_ffi.dylib'', ''BamlFFI.framework/BamlFFI'']) \<and>
   baml_library_load stub_env (Some ''./libbaml_ffi.so'') world0 = Inr (Addr 3, stub_world) \<and>
   (\<exists>w'. baml_library_load_default stub_env Linux world0 = Inr (Addr 3, w') \<and>
      same_resources w' stub_world \<and>
      dlopens (trace w') = [''libbaml_ffi.so'', ''./libbaml_ffi.so''])"
proof -
  have t: "dlopens (trace world0) = []"
    by (simp add: world0_def)
  from load_default_first_success [where plat = Apple and e = stub_env and w = world0]
    stub_no_dylib
  have a: "\<exists>w'. baml_library_load_default stub_env Apple world0 = Inr (NULL, w') \<and> alike w' world0 \<and>
      dlopens (trace w') = dlopens (trace world0) @ candidates (paths Apple)"
    by blast
  from load_default_first_success [where plat = Linux and e = stub_env and w = world0
      and fs = "[''libbaml_ffi.so'']" and p = "''./libbaml_ffi.so''"
      and rest = "[''./lib/libbaml_ffi.so'', ''/usr/local/lib/libbaml_ffi.so'', ''/usr/lib/libbaml_ffi.so'']"
      and a = 3 and u = stub_world]
    linux_candidates stub_bare_name_fails load_stub
  have b: "\<exists>w'. baml_library_load_default stub_env Linux world0 = Inr (Addr 3, w') \<and>
      same_resources w' stub_world \<and>
      dlopens (trace w') = dlopens (trace world0) @ [''libbaml_ffi.so''] @ [''./libbaml_ffi.so'']"
    by blast
  from a b load_stub show ?thesis
    by (simp add: t apple_candidates)
qed

subsection \<open>Loading\<close>

text \<open>
  C2. \<open>baml_library_load\<close> always returns. The pointer it returns is not null
  exactly when the path is not null, \<open>dlopen\<close> gives a handle, \<open>calloc\<close> has a block
  to hand out, and \<open>dlsym\<close> resolves both \<open>create_baml_runtime\<close> and
  \<open>call_function_from_c\<close> on that handle. Whenever it returns null, the open OS
  references and the allocator's blocks are as before and no allocation is live
  that was not before. If the allocation fails after a successful open, the
  handle is closed; if a mandatory symbol is missing after a successful open and
  allocation, the events end with \<open>dlclose\<close> of the handle just opened and \<open>free\<close>
  of the block just allocated, which is no longer live.
\<close>

theorem load_handle_iff_no_leak:
  "\<exists>lib w'. baml_library_load e path w = Inr (lib, w') \<and>
     ((lib \<noteq> NULL) =
        (\<exists>p h. path = Some p \<and> dlopen_os e p = Addr h \<and> free_blocks w \<noteq> [] \<and>
           dlsym_os e (Addr h) ''create_baml_runtime'' \<noteq> NULL \<and>
           dlsym_os e (Addr h) ''call_function_from_c'' \<noteq> NULL)) \<and>
     (lib = NULL \<longrightarrow>
        opened w' = opened w \<and> free_blocks w' = free_blocks w \<and>
        (\<forall>b. heap w' b \<noteq> None \<longrightarrow> heap w' b = heap w b) \<and>
        (allocator_ok w \<longrightarrow> heap w' = heap w)) \<and>
     (\<forall>p h. path = Some p \<and> dlopen_os e p = Addr h \<and> free_blocks w = [] \<longrightarrow>
        trace w' = trace w @ [Dlopen p, Calloc NULL, Dlclose h]) \<and>
     (\<forall>p h a rest. path = Some p \<and> dlopen_os e p = Addr h \<and> free_blocks w = a # rest \<and>
        (dlsym_os e (Addr h) ''create_baml_runtime'' = NULL \<or>
         dlsym_os e (Addr h) ''call_function_from_c'' = NULL) \<longrightarrow>
        lib = NULL \<and> heap w' a = None \<and>
        trace w' = trace w @ [Dlopen p, Calloc (Addr a)] @ map (Dlsym (Addr h)) symbol_names @
                     [Dlclose h, Free a])"
proof (cases path)
  case None
  then show ?thesis by (simp add: load_null_path_aux)
next
  case (Some p)
  show ?thesis
  proof (cases rule: load_cases [of e p w])
    case no_open
    with Some show ?thesis by simp
  next
    case (no_memory h)
    with Some show ?thesis by simp
  next
    case (no_symbols h a rest)
    with Some show ?thesis
      by (auto simp: mandatory_def allocator_ok_def)
  next
    case (loaded h a rest)
    with Some show ?thesis
      by (auto simp: mandatory_def)
  qed
qed

lemma allocator_ok_world0: "allocator_ok world0"
  by (simp add: allocator_ok_def world0_def)

lemma load_other:
  "baml_library_load stub_env (Some ''/tmp/other.so'') world0 =
     Inr (NULL, world0\<lparr>trace := [Dlopen ''/tmp/other.so'', Calloc (Addr 3)] @
            map (Dlsym (Addr 9)) symbol_names @ [Dlclose 9, Free 3]\<rparr>)"
proof -
  have "baml_library_load stub_env (Some ''/tmp/other.so'') world0 =
     Inr (NULL, world0\<lparr>heap := (heap world0)(3 := None),
            trace := trace world0 @ [Dlopen ''/tmp/other.so'', Calloc (Addr 3)] @
              map (Dlsym (Addr 9)) symbol_names @ [Dlclose 9, Free 3]\<rparr>)"
    by (rule load_symbols_missing [where rest = "[4]"])
       (simp_all add: stub_env_def world0_def mandatory_def)
  then show ?thesis by (simp add: world0_def)
qed

theorem load_handle_iff_no_leak_witness:
  "baml_library_load stub_env (Some ''./libbaml_ffi.so'') world0 = Inr (Addr 3, stub_world) \<and>
   (\<exists>p h. Some ''./libbaml_ffi.so'' = Some p \<and> dlopen_os stub_env p = Addr h \<and>
      free_blocks world0 \<noteq> [] \<and>
      dlsym_os stub_env (Addr h) ''create_baml_runtime'' \<noteq> NULL \<and>
      dlsym_os stub_env (Addr h) ''call_function_from_c'' \<noteq> NULL) \<and>
   dlopen_os stub_env ''/tmp/other.so'' = Addr 9 \<and> free_blocks world0 = [3, 4] \<and>
   dlsym_os stub_env (Addr 9) ''create_baml_runtime'' = NULL \<and>
   allocator_ok world0 \<and>
   (\<exists>w'. baml_library_load stub_env (Some ''/tmp/other.so'') world0 = Inr (NULL, w') \<and>
      opened w' = opened world0 \<and> free_blocks w' = free_blocks world0 \<and>
      heap w' = heap world0 \<and>
      trace w' = trace world0 @ [Dlopen ''/tmp/other.so'', Calloc (Addr 3)] @
                   map (Dlsym (Addr 9)) symbol_names @ [Dlclose 9, Free 3])"
proof -
  have env: "dlopen_os stub_env ''/tmp/other.so'' = Addr 9"
    "dlsym_os stub_env (Addr 9) ''create_baml_runtime'' = NULL"
    by (simp_all add: stub_env_def)
  have fb: "free_blocks world0 = [3, 4]"
    by (simp add: world0_def)
  from load_handle_iff_no_leak [of stub_env "Some ''./libbaml_ffi.so''" world0] load_stub
  have ok: "\<exists>p h. Some ''./libbaml_ffi.so'' = Some p \<and> dlopen_os stub_env p = Addr h \<and>
      free_blocks world0 \<noteq> [] \<and>
      dlsym_os stub_env (Addr h) ''create_baml_runtime'' \<noteq> NULL \<and>
      dlsym_os stub_env (Addr h) ''call_function_from_c'' \<noteq> NULL"
    by simp
  from load_handle_iff_no_leak [of stub_env "Some ''/tmp/other.so''" world0]
    env fb allocator_ok_world0
  have failed: "\<exists>w'. baml_library_load stub_env (Some ''/tmp/other.so'') world0 = Inr (NULL, w') \<and>
      opened w' = opened world0 \<and> free_blocks w' = free_blocks world0 \<and>
      heap w' = heap world0 \<and>
      trace w' = trace world0 @ [Dlopen ''/tmp/other.so'', Calloc (Addr 3)] @
                   map (Dlsym (Addr 9)) symbol_names @ [Dlclose 9, Free 3]"
    by (elim exE conjE) simp
  show ?thesis
    by (intro conjI) (fact load_stub ok env fb allocator_ok_world0 failed)+
qed

subsection \<open>The handles the load operations return\<close>

text \<open>What a non-null result of either load operation says about the state.\<close>

lemma loaded_state:
  assumes "baml_library_load e path w = Inr (Addr a, w') \<or>
           baml_library_load_default e plat w = Inr (Addr a, w')"
  shows "\<exists>h rest. free_blocks w = a # rest \<and> mandatory e (Addr h) \<and>
           opened w' = h # opened w \<and> heap w' = (heap w)(a \<mapsto> resolved e (Addr h)) \<and>
           free_blocks w' = rest \<and> ptr_cells w' = ptr_cells w \<and> len_cells w' = len_cells w"
proof -
  have direct: "\<exists>h rest. free_blocks w = a # rest \<and> mandatory e (Addr h) \<and>
           opened u = h # opened w \<and> heap u = (heap w)(a \<mapsto> resolved e (Addr h)) \<and>
           free_blocks u = rest \<and> ptr_cells u = ptr_cells w \<and> len_cells u = len_cells w"
    if "baml_library_load e q w = Inr (Addr a, u)" for q u
    using that by (elim load_returns_live) simp
  from assms show ?thesis
  proof
    assume "baml_library_load e path w = Inr (Addr a, w')"
    then show ?thesis by (rule direct)
  next
    assume "baml_library_load_default e plat w = Inr (Addr a, w')"
    then obtain p u where "baml_library_load e (Some p) w = Inr (Addr a, u)"
      and "same_resources w' u"
      using load_default_live by blast
    with direct [of "Some p" u] show ?thesis
      by (simp add: same_resources_def)
  qed
qed

lemma is_loaded_live:
  "heap w b = Some K \<Longrightarrow> baml_library_is_loaded (Addr b) w = Inr (handle K \<noteq> NULL)"
  by (simp add: baml_library_is_loaded_def deref_def and_then_def)

text \<open>
  C6. A pointer that \<open>baml_library_load\<close> or \<open>baml_library_load_default\<close>
  returns and that is not null points to a live \<open>BamlLibrary\<close> whose OS handle is
  not null and is among the open references, and whose \<open>create_runtime\<close> and
  \<open>call_function\<close> pointers are resolved; \<open>baml_library_is_loaded\<close> is true on it.
  \<open>baml_library_is_loaded\<close> only reads (it returns no state): it is false on the
  null pointer and, on a live handle, true exactly when the OS handle is not null.
\<close>

theorem returned_handle_fully_loaded:
  "(baml_library_load e path w = Inr (Addr a, w') \<or>
    baml_library_load_default e plat w = Inr (Addr a, w') \<longrightarrow>
      (\<exists>L h. heap w' a = Some L \<and> handle L = Addr h \<and> h \<in> set (opened w') \<and>
         create_runtime L \<noteq> NULL \<and> call_function L \<noteq> NULL) \<and>
      baml_library_is_loaded (Addr a) w' = Inr True) \<and>
   baml_library_is_loaded NULL w = Inr False \<and>
   (heap w b = Some K \<longrightarrow> baml_library_is_loaded (Addr b) w = Inr (handle K \<noteq> NULL))"
proof (intro conjI impI)
  assume "baml_library_load e path w = Inr (Addr a, w') \<or>
    baml_library_load_default e plat w = Inr (Addr a, w')"
  from loaded_state [OF this] obtain h where h: "mandatory e (Addr h)"
    "opened w' = h # opened w" "heap w' = (heap w)(a \<mapsto> resolved e (Addr h))"
    by blast
  then show "\<exists>L h. heap w' a = Some L \<and> handle L = Addr h \<and> h \<in> set (opened w') \<and>
         create_runtime L \<noteq> NULL \<and> call_function L \<noteq> NULL"
    by (simp add: mandatory_def resolved_def)
  from h show "baml_library_is_loaded (Addr a) w' = Inr True"
    by (simp add: is_loaded_live resolved_def)
next
  show "baml_library_is_loaded NULL w = Inr False"
    by (simp add: baml_library_is_loaded_def)
next
  assume "heap w b = Some K"
  then show "baml_library_is_loaded (Addr b) w = Inr (handle K \<noteq> NULL)"
    by (rule is_loaded_live)
qed

theorem returned_handle_fully_loaded_witness:
  "baml_library_load stub_env (Some ''./libbaml_ffi.so'') world0 = Inr (Addr 3, stub_world) \<and>
   (\<exists>L h. heap stub_world 3 = Some L \<and> handle L = Addr h \<and> h \<in> set (opened stub_world) \<and>
      create_runtime L \<noteq> NULL \<and> call_function L \<noteq> NULL) \<and>
   baml_library_is_loaded (Addr 3) stub_world = Inr True \<and>
   heap (world0\<lparr>heap := [5 \<mapsto> zeroed]\<rparr>) 5 = Some zeroed \<and>
   baml_library_is_loaded (Addr 5) (world0\<lparr>heap := [5 \<mapsto> zeroed]\<rparr>) = Inr False"
proof -
  have z: "heap (world0\<lparr>heap := [5 \<mapsto> zeroed]\<rparr>) 5 = Some zeroed"
    by simp
  from returned_handle_fully_loaded
    [where e = stub_env and path = "Some ''./libbaml_ffi.so''" and w = world0 and a = 3
       and w' = stub_world] load_stub
  have a: "(\<exists>L h. heap stub_world 3 = Some L \<and> handle L = Addr h \<and> h \<in> set (opened stub_world) \<and>
      create_runtime L \<noteq> NULL \<and> call_function L \<noteq> NULL) \<and>
     baml_library_is_loaded (Addr 3) stub_world = Inr True"
    by simp
  from returned_handle_fully_loaded
    [where w = "world0\<lparr>heap := [5 \<mapsto> zeroed]\<rparr>" and b = 5 and K = zeroed] z
  have b: "baml_library_is_loaded (Addr 5) (world0\<lparr>heap := [5 \<mapsto> zeroed]\<rparr>) = Inr False"
    by (simp add: zeroed_def)
  show ?thesis
    by (intro conjI) (fact load_stub z b a [THEN conjunct1] a [THEN conjunct2])+
qed

subsection \<open>Unloading\<close>

lemma unload_open:
  "heap w a = Some L \<Longrightarrow> handle L = Addr h \<Longrightarrow>
   baml_library_unload (Addr a) w =
     Inr (w\<lparr>opened := remove1 h (opened w), heap := (heap w)(a := None),
            free_blocks := a # free_blocks w, trace := trace w @ [Dlclose h, Free a]\<rparr>)"
  by (simp add: baml_library_unload_def deref_def and_then_def dlclose_def free_def)

lemma unload_closed:
  "heap w a = Some L \<Longrightarrow> handle L = NULL \<Longrightarrow>
   baml_library_unload (Addr a) w =
     Inr (w\<lparr>heap := (heap w)(a := None), free_blocks := a # free_blocks w,
            trace := trace w @ [Free a]\<rparr>)"
  by (simp add: baml_library_unload_def deref_def and_then_def free_def)

lemma load_then_unload:
  assumes "baml_library_load e path w = Inr (Addr a, u) \<or>
           baml_library_load_default e plat w = Inr (Addr a, u)"
  shows "\<exists>u' h. baml_library_unload (Addr a) u = Inr u' \<and>
           trace u' = trace u @ [Dlclose h, Free a] \<and>
           opened u' = opened w \<and> free_blocks u' = free_blocks w \<and>
           heap u' a = None \<and> (\<forall>b. b \<noteq> a \<longrightarrow> heap u' b = heap w b) \<and>
           (allocator_ok w \<longrightarrow> heap u' = heap w) \<and>
           ptr_cells u' = ptr_cells w \<and> len_cells u' = len_cells w"
proof -
  from loaded_state [OF assms] obtain h rest where h: "free_blocks w = a # rest"
    "opened u = h # opened w" "heap u = (heap w)(a \<mapsto> resolved e (Addr h))"
    "free_blocks u = rest" "ptr_cells u = ptr_cells w" "len_cells u = len_cells w"
    by blast
  have "heap u a = Some (resolved e (Addr h))" "handle (resolved e (Addr h)) = Addr h"
    using h(3) by (simp_all add: resolved_def)
  from unload_open [OF this] h show ?thesis
    by (auto simp: allocator_ok_def)
qed

text \<open>
  C8. \<open>baml_library_unload\<close> of the null pointer changes nothing. On a live
  handle it closes the OS reference when that is not null (one \<open>dlclose\<close>, which
  removes one reference to it) and frees the wrapper state (one \<open>free\<close>, after
  which the block is not live). After a load operation that returned a handle,
  unloading it at once leaves the open references and the allocator's blocks as
  they were before the load, and the handle's block not live; every other block
  is as before the load.
\<close>

theorem unload_releases:
  "baml_library_unload NULL w = Inr w \<and>
   (heap w a = Some L \<and> handle L = Addr h \<longrightarrow>
      baml_library_unload (Addr a) w =
        Inr (w\<lparr>opened := remove1 h (opened w), heap := (heap w)(a := None),
               free_blocks := a # free_blocks w, trace := trace w @ [Dlclose h, Free a]\<rparr>)) \<and>
   (heap w a = Some L \<and> handle L = NULL \<longrightarrow>
      baml_library_unload (Addr a) w =
        Inr (w\<lparr>heap := (heap w)(a := None), free_blocks := a # free_blocks w,
               trace := trace w @ [Free a]\<rparr>)) \<and>
   (baml_library_load e path w = Inr (Addr b, u) \<or>
    baml_library_load_default e plat w = Inr (Addr b, u) \<longrightarrow>
      (\<exists>u' k. baml_library_unload (Addr b) u = Inr u' \<and>
         trace u' = trace u @ [Dlclose k, Free b] \<and>
         opened u' = opened w \<and> free_blocks u' = free_blocks w \<and>
         heap u' b = None \<and> (\<forall>c. c \<noteq> b \<longrightarrow> heap u' c = heap w c) \<and>
         (allocator_ok w \<longrightarrow> heap u' = heap w) \<and>
         ptr_cells u' = ptr_cells w \<and> len_cells u' = len_cells w))"
proof (intro conjI impI)
  show "baml_library_unload NULL w = Inr w"
    by (simp add: baml_library_unload_def)
next
  assume "heap w a = Some L \<and> handle L = Addr h"
  then show "baml_library_unload (Addr a) w =
        Inr (w\<lparr>opened := remove1 h (opened w), heap := (heap w)(a := None),
               free_blocks := a # free_blocks w, trace := trace w @ [Dlclose h, Free a]\<rparr>)"
    by (simp add: unload_open)
next
  assume "heap w a = Some L \<and> handle L = NULL"
  then show "baml_library_unload (Addr a) w =
        Inr (w\<lparr>heap := (heap w)(a := None), free_blocks := a # free_blocks w,
               trace := trace w @ [Free a]\<rparr>)"
    by (simp add: unload_closed)
next
  assume "baml_library_load e path w = Inr (Addr b, u) \<or>
    baml_library_load_default e plat w = Inr (Addr b, u)"
  then show "\<exists>u' k. baml_library_unload (Addr b) u = Inr u' \<and>
         trace u' = trace u @ [Dlclose k, Free b] \<and>
         opened u' = opened w \<and> free_blocks u' = free_blocks w \<and>
         heap u' b = None \<and> (\<forall>c. c \<noteq> b \<longrightarrow> heap u' c = heap w c) \<and>
         (allocator_ok w \<longrightarrow> heap u' = heap w) \<and>
         ptr_cells u' = ptr_cells w \<and> len_cells u' = len_cells w"
    by (rule load_then_unload)
qed

lemma unload_stub:
  "baml_library_unload (Addr 3) stub_world =
     Inr (world0\<lparr>trace := trace stub_world @ [Dlclose 7, Free 3]\<rparr>)"
proof -
  have "handle (resolved stub_env (Addr 7)) = Addr 7"
    by (simp add: resolved_def)
  from unload_open [OF stub_heap this] show ?thesis
    by (simp add: stub_world_def world0_def)
qed

theorem unload_releases_witness:
  "baml_library_load stub_env (Some ''./libbaml_ffi.so'') world0 = Inr (Addr 3, stub_world) \<and>
   baml_library_unload (Addr 3) stub_world =
     Inr (world0\<lparr>trace := trace stub_world @ [Dlclose 7, Free 3]\<rparr>) \<and>
   allocator_ok world0 \<and>
   (\<exists>u' k. baml_library_unload (Addr 3) stub_world = Inr u' \<and>
      trace u' = trace stub_world @ [Dlclose k, Free 3] \<and>
      opened u' = opened world0 \<and> free_blocks u' = free_blocks world0 \<and>
      heap u' = heap world0) \<and>
   heap (world0\<lparr>heap := [5 \<mapsto> zeroed]\<rparr>) 5 = Some zeroed \<and> handle zeroed = NULL \<and>
   baml_library_unload (Addr 5) (world0\<lparr>heap := [5 \<mapsto> zeroed]\<rparr>) =
     Inr (world0\<lparr>free_blocks := [5, 3, 4], trace := [Free 5]\<rparr>)"
proof -
  have z: "heap (world0\<lparr>heap := [5 \<mapsto> zeroed]\<rparr>) 5 = Some zeroed" "handle zeroed = NULL"
    by (simp_all add: zeroed_def)
  from unload_releases [where w = "world0\<lparr>heap := [5 \<mapsto> zeroed]\<rparr>" and a = 5 and L = zeroed] z
  have closed: "baml_library_unload (Addr 5) (world0\<lparr>heap := [5 \<mapsto> zeroed]\<rparr>) =
     Inr (world0\<lparr>free_blocks := [5, 3, 4], trace := [Free 5]\<rparr>)"
    by (simp add: world0_def)
  from load_stub
    unload_releases [where e = stub_env and path = "Some ''./libbaml_ffi.so''" and w = world0
      and b = 3 and u = stub_world and plat = Linux and a = 3 and L = zeroed and h = 7]
  have "\<exists>u' k. baml_library_unload (Addr 3) stub_world = Inr u' \<and>
         trace u' = trace stub_world @ [Dlclose k, Free 3] \<and>
         opened u' = opened world0 \<and> free_blocks u' = free_blocks world0 \<and>
         heap u' 3 = None \<and> (\<forall>c. c \<noteq> 3 \<longrightarrow> heap u' c = heap world0 c) \<and>
         (allocator_ok world0 \<longrightarrow> heap u' = heap world0) \<and>
         ptr_cells u' = ptr_cells world0 \<and> len_cells u' = len_cells world0"
    by simp
  with allocator_ok_world0
  have round: "\<exists>u' k. baml_library_unload (Addr 3) stub_world = Inr u' \<and>
      trace u' = trace stub_world @ [Dlclose k, Free 3] \<and>
      opened u' = opened world0 \<and> free_blocks u' = free_blocks world0 \<and>
      heap u' = heap world0"
    by (elim exE conjE) (intro exI conjI, assumption+, simp)
  show ?thesis
    by (intro conjI) (fact load_stub unload_stub allocator_ok_world0 round z closed)+
qed

end
